theory Spec2Isabelle
  imports Complex_Main
begin

section \<open>Python values used by the payment module\<close>

text \<open>
  The payment module of \<^verbatim>\<open>Wata/modules/payment.py\<close> turns keyword arguments into the
  JSON body or the query parameters of one HTTP request. Its arithmetic is done by the
  standard library: \<^verbatim>\<open>decimal.Decimal\<close> for the rounding, \<^verbatim>\<open>str\<close> and
  \<^verbatim>\<open>float\<close> at the borders. This section models those library values exactly: a
  decimal is sign, coefficient and exponent, a float is a binary64 given by sign,
  significand and binary exponent.
\<close>

subsection \<open>Floats and decimals\<close>

text \<open>
  \<open>FFinite s m p\<close> is the binary64 number \<open>(-1)^s * m * 2^p\<close> with \<open>m < 2^53\<close> and
  \<open>-1074 \<le> p \<le> 971\<close>; normal numbers have \<open>2^52 \<le> m\<close>, subnormal numbers and zero
  have \<open>p = -1074\<close>.
\<close>

datatype pyfloat = FFinite bool nat int | FInf bool | FNaN

text \<open>
  \<open>Dec s c e\<close> is the finite \<^verbatim>\<open>Decimal\<close> with \<^verbatim>\<open>_sign = s\<close>, digit string
  \<^verbatim>\<open>_int\<close> of the number \<open>c\<close> and \<^verbatim>\<open>_exp = e\<close>. NaN payloads are not modelled.
\<close>

datatype decimal = Dec bool nat int | DInf bool | DNaN bool | DSNaN bool

text \<open>
  JSON-like Python values: what the module puts into a payload or a query, and what the
  transport returns. A dict is an association list in insertion order.
\<close>

datatype pyval =
    VNone
  | VBool bool
  | VInt int
  | VFloat pyfloat
  | VStr string
  | VList "pyval list"
  | VDict "(string \<times> pyval) list"

type_synonym dict = "(string \<times> pyval) list"

subsection \<open>Exceptions (\<^verbatim>\<open>Wata/exceptions.py\<close>)\<close>

datatype error_class = ApiErrorClass | ApiTimeoutErrorClass | ApiConnectionErrorClass

text \<open>
  An instance of \<^verbatim>\<open>ApiError\<close> or of one of its two subclasses. \<open>status_code\<close>,
  \<open>message\<close> and \<open>response_data\<close> are the attributes the constructor sets and
  \<open>args_text\<close> is the text handed to \<^verbatim>\<open>Exception.__init__\<close>, which \<^verbatim>\<open>str(e)\<close>
  returns. The class defines no attribute \<^verbatim>\<open>error_code\<close>: \<open>error_code\<close> is \<open>None\<close>
  unless somebody stored one on the instance after its construction.
\<close>

record api_error =
  error_class :: error_class
  status_code :: int
  message :: string
  response_data :: pyval
  args_text :: string
  error_code :: "pyval option"

text \<open>
  What an operation can raise: an API error of the transport, the exceptions Python
  itself raises in the module's code, and anything else the transport raises.
\<close>

datatype exn =
    ApiErr api_error
  | InvalidOperation
  | AttributeError
  | TypeError
  | KeyError
  | OtherError string

text \<open>Length of the decimal digit string of a number (\<^verbatim>\<open>len(str(n))\<close>).\<close>

function ndigits :: "nat \<Rightarrow> nat" where
  "ndigits n = (if n < 10 then 1 else Suc (ndigits (n div 10)))"
  by pat_completeness auto
termination
  by (relation "measure id") auto

text \<open>\<^verbatim>\<open>int.bit_length\<close>.\<close>

function bit_length :: "nat \<Rightarrow> nat" where
  "bit_length n = (if n = 0 then 0 else Suc (bit_length (n div 2)))"
  by pat_completeness auto
termination
  by (relation "measure id") auto

declare ndigits.simps [simp del]
declare bit_length.simps [simp del]

subsection \<open>The default decimal context\<close>

text \<open>
  The module never touches the decimal context, so every \<^verbatim>\<open>quantize\<close> runs in the
  thread's default context: 28 digits of precision, exponents within \<open>\<plusminus>999999\<close>, and
  \<^verbatim>\<open>InvalidOperation\<close> trapped (raised as an exception).
\<close>

definition context_prec :: nat where
  "context_prec = 28"

definition context_Emax :: int where
  "context_Emax = 999999"

definition context_Etiny :: int where
  "context_Etiny = - 999999 - (int context_prec - 1)"

definition adjusted :: "nat \<Rightarrow> int \<Rightarrow> int" where
  "adjusted c e = e + int (ndigits c) - 1"

text \<open>
  \<^verbatim>\<open>Decimal._rescale(exp, ROUND_HALF_UP)\<close> on a non-zero coefficient: zeros are appended
  when the exponent goes down; otherwise digits are cut off and the kept part is
  incremented when the first cut digit is one of \<^verbatim>\<open>56789\<close>.
\<close>

definition rescale_half_up :: "nat \<Rightarrow> int \<Rightarrow> int \<Rightarrow> nat" where
  "rescale_half_up c e xp =
     (if xp \<le> e then c * 10 ^ nat (e - xp)
      else
        let shift = nat (xp - e);
            kept = c div 10 ^ shift;
            first_cut = (c div 10 ^ (shift - 1)) mod 10
        in if 5 \<le> first_cut then kept + 1 else kept)"

text \<open>
  \<^verbatim>\<open>d.quantize(Decimal(10) ** xp, rounding=ROUND_HALF_UP)\<close> in the default context.
  The closing \<^verbatim>\<open>_fix\<close> leaves the answer as it is: its coefficient fits the precision
  and its exponent is the requested one.
\<close>

fun quantize :: "decimal \<Rightarrow> int \<Rightarrow> exn + decimal" where
  "quantize (DSNaN s) xp = Inl InvalidOperation"
| "quantize (DNaN s) xp = Inr (DNaN s)"
| "quantize (DInf s) xp = Inl InvalidOperation"
| "quantize (Dec s c e) xp =
     (if \<not> (context_Etiny \<le> xp \<and> xp \<le> context_Emax) then Inl InvalidOperation
      else if c = 0 then Inr (Dec s 0 xp)
      else if context_Emax < adjusted c e then Inl InvalidOperation
      else if int context_prec < adjusted c e - xp + 1 then Inl InvalidOperation
      else
        let c' = rescale_half_up c e xp
        in if context_Emax < adjusted c' xp then Inl InvalidOperation
           else if context_prec < ndigits c' then Inl InvalidOperation
           else Inr (Dec s c' xp))"

declare quantize.simps [simp del]

subsection \<open>Decimal to float: correctly rounded\<close>

text \<open>
  \<^verbatim>\<open>float(d)\<close> is \<^verbatim>\<open>float(str(d))\<close>: the binary64 nearest to the decimal's value, ties
  to the even significand, infinity beyond the largest double.
\<close>

definition round_half_even :: "nat \<Rightarrow> nat \<Rightarrow> nat" where
  "round_half_even n d =
     (let q = n div d; r = n mod d
      in if 2 * r < d then q
         else if d < 2 * r then q + 1
         else if even q then q else q + 1)"

text \<open>\<open>ratio_ge_pow b n d k\<close> decides \<open>b^k \<le> n / d\<close> in integer arithmetic.\<close>

definition ratio_ge_pow :: "nat \<Rightarrow> nat \<Rightarrow> nat \<Rightarrow> int \<Rightarrow> bool" where
  "ratio_ge_pow b n d k = (if 0 \<le> k then d * b ^ nat k \<le> n else d \<le> n * b ^ nat (- k))"

text \<open>\<open>\<lfloor>log\<^sub>2 (n / d)\<rfloor>\<close> and \<open>\<lfloor>log\<^sub>1\<^sub>0 (n / d)\<rfloor>\<close> for positive \<open>n\<close> and \<open>d\<close>.\<close>

definition binary_exponent :: "nat \<Rightarrow> nat \<Rightarrow> int" where
  "binary_exponent n d =
     (let k = int (bit_length n) - int (bit_length d)
      in if ratio_ge_pow 2 n d k then k else k - 1)"

definition decimal_exponent :: "nat \<Rightarrow> nat \<Rightarrow> int" where
  "decimal_exponent n d =
     (let k = int (ndigits n) - int (ndigits d)
      in if ratio_ge_pow 10 n d k then k else k - 1)"

definition float_of_ratio :: "bool \<Rightarrow> nat \<Rightarrow> nat \<Rightarrow> pyfloat" where
  "float_of_ratio s n d =
     (if n = 0 then FFinite s 0 (- 1074)
      else
        let e = binary_exponent n d;
            p = max (e - 52) (- 1074);
            m = (if 0 \<le> p then round_half_even n (d * 2 ^ nat p)
                 else round_half_even (n * 2 ^ nat (- p)) d);
            p' = (if m = 2 ^ 53 then p + 1 else p);
            m' = (if m = 2 ^ 53 then 2 ^ 52 else m)
        in if 971 < p' then FInf s else FFinite s m' p')"

definition float_of_scaled :: "bool \<Rightarrow> nat \<Rightarrow> int \<Rightarrow> pyfloat" where
  "float_of_scaled s c e =
     (if 0 \<le> e then float_of_ratio s (c * 10 ^ nat e) 1
      else float_of_ratio s c (10 ^ nat (- e)))"

fun float_of_decimal :: "decimal \<Rightarrow> pyfloat" where
  "float_of_decimal (Dec s c e) = float_of_scaled s c e"
| "float_of_decimal (DInf s) = FInf s"
| "float_of_decimal (DNaN s) = FNaN"
| "float_of_decimal (DSNaN s) = FNaN"

declare float_of_decimal.simps [simp del]

subsection \<open>Float to decimal through \<^verbatim>\<open>str\<close>\<close>

text \<open>
  \<^verbatim>\<open>str(x)\<close> of a float is its \<^verbatim>\<open>repr\<close>: the shortest digit string that reads back
  as \<open>x\<close>, the closest to \<open>x\<close> when several have that length, and 17 digits at most.
  \<open>repr_candidate\<close> tries one length \<open>k\<close>: the two \<open>k\<close>-digit decimals around the value
  \<open>n / d\<close> of \<open>x\<close>.
\<close>

definition repr_candidate :: "pyfloat \<Rightarrow> bool \<Rightarrow> nat \<Rightarrow> nat \<Rightarrow> nat \<Rightarrow> (nat \<times> int) option" where
  "repr_candidate x s n d k =
     (let t = decimal_exponent n d - (int k - 1);
          N = (if 0 \<le> t then n else n * 10 ^ nat (- t));
          D = (if 0 \<le> t then d * 10 ^ nat t else d);
          lo = N div D;
          hi = lo + 1;
          ok_lo = (float_of_scaled s lo t = x);
          ok_hi = (float_of_scaled s hi t = x)
      in if ok_lo \<and> ok_hi then Some (round_half_even N D, t)
         else if ok_lo then Some (lo, t)
         else if ok_hi then Some (hi, t)
         else None)"

fun first_some :: "('a \<Rightarrow> 'b option) \<Rightarrow> 'a list \<Rightarrow> 'b option" where
  "first_some f [] = None"
| "first_some f (k # ks) = (case f k of Some r \<Rightarrow> Some r | None \<Rightarrow> first_some f ks)"

function strip_zeros :: "nat \<Rightarrow> int \<Rightarrow> nat \<times> int" where
  "strip_zeros c t = (if c = 0 \<or> c mod 10 \<noteq> 0 then (c, t) else strip_zeros (c div 10) (t + 1))"
  by pat_completeness auto
termination
  by (relation "measure fst") auto

declare strip_zeros.simps [simp del]

definition shortest_digits :: "pyfloat \<Rightarrow> bool \<Rightarrow> nat \<Rightarrow> nat \<Rightarrow> nat \<times> int" where
  "shortest_digits x s n d =
     (case first_some (repr_candidate x s n d) [1, 2, 3, 4, 5, 6, 7, 8, 9, 10, 11, 12, 13, 14, 15, 16, 17] of
        Some (c, t) \<Rightarrow> strip_zeros c t
      | None \<Rightarrow>
          (let t = decimal_exponent n d - 16
           in strip_zeros
                (round_half_even (if 0 \<le> t then n else n * 10 ^ nat (- t))
                                 (if 0 \<le> t then d * 10 ^ nat t else d)) t))"

text \<open>
  \<^verbatim>\<open>Decimal(str(x))\<close> for a float \<open>x\<close>. The repr is written without an exponent when
  the decimal point position \<^verbatim>\<open>decpt\<close> satisfies \<open>-4 < decpt \<le> 16\<close>, and then a whole
  number gets the suffix \<^verbatim>\<open>.0\<close>, which is one more digit of the coefficient.
\<close>

fun Decimal_of_float_str :: "pyfloat \<Rightarrow> decimal" where
  "Decimal_of_float_str FNaN = DNaN False"
| "Decimal_of_float_str (FInf s) = DInf s"
| "Decimal_of_float_str (FFinite s m p) =
     (if m = 0 then Dec s 0 (- 1)
      else
        let (c, t) = (if 0 \<le> p then shortest_digits (FFinite s m p) s (m * 2 ^ nat p) 1
                      else shortest_digits (FFinite s m p) s m (2 ^ nat (- p)));
            decpt = t + int (ndigits c)
        in if 0 \<le> t \<and> decpt \<le> 16 then Dec s (c * 10 ^ nat (t + 1)) (- 1) else Dec s c t)"

declare Decimal_of_float_str.simps [simp del]

text \<open>\<^verbatim>\<open>Decimal(str(n))\<close> for an int \<open>n\<close>.\<close>

definition Decimal_of_int_str :: "int \<Rightarrow> decimal" where
  "Decimal_of_int_str n = Dec (n < 0) (nat \<bar>n\<bar>) 0"

section \<open>Exceptions: the constructors\<close>

text \<open>\<^verbatim>\<open>str(n)\<close> for an int, which is also what \<^verbatim>\<open>f"{n}"\<close> and \<^verbatim>\<open>"%d" % n\<close> write.\<close>

definition digit_char :: "nat \<Rightarrow> char" where
  "digit_char d = ''0123456789'' ! d"

function str_nat :: "nat \<Rightarrow> string" where
  "str_nat n = (if n < 10 then [digit_char n] else str_nat (n div 10) @ [digit_char (n mod 10)])"
  by pat_completeness auto
termination
  by (relation "measure id") auto

declare str_nat.simps [simp del]

definition str_int :: "int \<Rightarrow> string" where
  "str_int n = (if n < 0 then CHR ''-'' # str_nat (nat (- n)) else str_nat (nat n))"

definition startswith :: "string \<Rightarrow> string \<Rightarrow> bool" where
  "startswith s p = (take (length p) s = p)"

text \<open>\<^verbatim>\<open>f"{message}"\<close> for a string is the string.\<close>

definition format_str :: "string \<Rightarrow> string" where
  "format_str s = s"

text \<open>
  \<^verbatim>\<open>ApiError.__init__(self, status_code, message, response_data=None)\<close>; the first
  argument is the class being instantiated.
\<close>

definition ApiError_init :: "error_class \<Rightarrow> int \<Rightarrow> string \<Rightarrow> pyval \<Rightarrow> api_error" where
  "ApiError_init cls sc msg rd =
     (let error_text =
            (if startswith msg (''HTTP '' @ str_int sc) then msg else format_str msg)
      in \<lparr>error_class = cls, status_code = sc, message = msg, response_data = rd,
          args_text = ''API Error '' @ str_int sc @ '': '' @ error_text,
          error_code = None\<rparr>)"

definition ApiError :: "int \<Rightarrow> string \<Rightarrow> api_error" where
  "ApiError sc msg = ApiError_init ApiErrorClass sc msg VNone"

text \<open>
  The two subclasses pass a fixed status to the base constructor. Their default messages
  are Russian sentences; the message is an argument here.
\<close>

definition ApiTimeoutError :: "string \<Rightarrow> api_error" where
  "ApiTimeoutError msg = ApiError_init ApiTimeoutErrorClass 408 msg VNone"

definition ApiConnectionError :: "string \<Rightarrow> api_error" where
  "ApiConnectionError msg = ApiError_init ApiConnectionErrorClass 0 msg VNone"

text \<open>The status codes HTTP defines: three digits, 100 to 599.\<close>

definition is_http_status :: "int \<Rightarrow> bool" where
  "is_http_status sc = (100 \<le> sc \<and> sc \<le> 599)"

text \<open>
  Reading \<^verbatim>\<open>e.error_code\<close>: the attribute's value, or \<^verbatim>\<open>AttributeError\<close> when the
  instance has none.
\<close>

definition getattr_error_code :: "api_error \<Rightarrow> exn + pyval" where
  "getattr_error_code e = (case error_code e of None \<Rightarrow> Inl AttributeError | Some v \<Rightarrow> Inr v)"

section \<open>The payment module (\<^verbatim>\<open>Wata/modules/payment.py\<close>)\<close>

subsection \<open>Arguments\<close>

text \<open>
  \<^verbatim>\<open>Union[decimal.Decimal, float, int]\<close>. A \<^verbatim>\<open>bool\<close>, which Python counts as an
  \<^verbatim>\<open>int\<close>, is left out.
\<close>

datatype amount = AInt int | AFloat pyfloat | ADecimal decimal

text \<open>
  A \<^verbatim>\<open>datetime\<close>: the date and time fields, and \<^verbatim>\<open>utcoffset()\<close> in microseconds
  (\<open>None\<close> for a naive value).
\<close>

record datetime =
  year :: nat
  month :: nat
  day :: nat
  hour :: nat
  minute :: nat
  second :: nat
  microsecond :: nat
  utcoffset :: "int option"

text \<open>\<^verbatim>\<open>Union[datetime, str]\<close> and \<^verbatim>\<open>Union[str, List[str]]\<close>\<close>

datatype time_bound = TDatetime datetime | TStr string

datatype str_or_list = SStr string | SList "string list"

subsection \<open>Library functions on strings and dates\<close>

text \<open>\<^verbatim>\<open>"%0wd" % n\<close>: at least \<open>w\<close> digits, zeros in front.\<close>

definition zero_pad :: "nat \<Rightarrow> nat \<Rightarrow> string" where
  "zero_pad w n = replicate (w - length (str_nat n)) (CHR ''0'') @ str_nat n"

text \<open>\<^verbatim>\<open>datetime._format_offset\<close>\<close>

definition format_offset :: "int option \<Rightarrow> string" where
  "format_offset off =
     (case off of
        None \<Rightarrow> []
      | Some us \<Rightarrow>
          (let sign = (if us < 0 then ''-'' else ''+'');
               a = nat \<bar>us\<bar>;
               hh = a div 3600000000;
               mm = (a mod 3600000000) div 60000000;
               ss = (a mod 3600000000) mod 60000000
           in sign @ zero_pad 2 hh @ '':'' @ zero_pad 2 mm @
              (if ss \<noteq> 0
               then '':'' @ zero_pad 2 (ss div 1000000) @
                    (if ss mod 1000000 \<noteq> 0 then ''.'' @ zero_pad 6 (ss mod 1000000) else [])
               else [])))"

text \<open>\<^verbatim>\<open>datetime.isoformat()\<close> with the default separator and \<^verbatim>\<open>timespec='auto'\<close>.\<close>

definition isoformat :: "datetime \<Rightarrow> string" where
  "isoformat dt =
     zero_pad 4 (year dt) @ ''-'' @ zero_pad 2 (month dt) @ ''-'' @ zero_pad 2 (day dt) @ ''T'' @
     zero_pad 2 (hour dt) @ '':'' @ zero_pad 2 (minute dt) @ '':'' @ zero_pad 2 (second dt) @
     (if microsecond dt \<noteq> 0 then ''.'' @ zero_pad 6 (microsecond dt) else []) @
     format_offset (utcoffset dt)"

text \<open>\<^verbatim>\<open>sep.join(xs)\<close>\<close>

fun join :: "string \<Rightarrow> string list \<Rightarrow> string" where
  "join sep [] = []"
| "join sep [x] = x"
| "join sep (x # y # ys) = x @ sep @ join sep (y # ys)"

text \<open>\<^verbatim>\<open>d[k] = v\<close> on a dict: a known key keeps its place, a new key goes last.\<close>

fun setitem :: "dict \<Rightarrow> string \<Rightarrow> pyval \<Rightarrow> dict" where
  "setitem [] k v = [(k, v)]"
| "setitem (p # ps) k v = (if fst p = k then (k, v) # ps else p # setitem ps k v)"

text \<open>\<^verbatim>\<open>d.get(k)\<close> and the keys of a dict.\<close>

definition lookup :: "dict \<Rightarrow> string \<Rightarrow> pyval option" where
  "lookup d k = map_of d k"

definition keys :: "dict \<Rightarrow> string set" where
  "keys d = fst ` set d"

text \<open>\<^verbatim>\<open>sub in s\<close> for two strings.\<close>

definition is_substring :: "string \<Rightarrow> string \<Rightarrow> bool" where
  "is_substring sub s = list_ex (\<lambda>i. take (length sub) (drop i s) = sub) [0 ..< Suc (length s)]"

text \<open>
  \<^verbatim>\<open>key in v\<close>, \<^verbatim>\<open>v[key]\<close> for a string key and \<^verbatim>\<open>len(v)\<close>, each with the
  \<^verbatim>\<open>TypeError\<close> Python raises on a value that does not support it.
\<close>

fun py_contains :: "pyval \<Rightarrow> string \<Rightarrow> exn + bool" where
  "py_contains (VDict d) key = Inr (key \<in> fst ` set d)"
| "py_contains (VList xs) key = Inr (VStr key \<in> set xs)"
| "py_contains (VStr s) key = Inr (is_substring key s)"
| "py_contains v key = Inl TypeError"

fun py_getitem :: "pyval \<Rightarrow> string \<Rightarrow> exn + pyval" where
  "py_getitem (VDict d) key = (case map_of d key of None \<Rightarrow> Inl KeyError | Some v \<Rightarrow> Inr v)"
| "py_getitem v key = Inl TypeError"

fun py_len :: "pyval \<Rightarrow> exn + nat" where
  "py_len (VStr s) = Inr (length s)"
| "py_len (VList xs) = Inr (length xs)"
| "py_len (VDict d) = Inr (length d)"
| "py_len v = Inl TypeError"

subsection \<open>Transport, log and the result of a call\<close>

text \<open>
  The transport is the injected \<^verbatim>\<open>http_client\<close>: \<^verbatim>\<open>post(path, data=...)\<close> and
  \<^verbatim>\<open>get(path, params=...)\<close> return the parsed response or raise. An operation's run
  records the requests it handed to the transport, the log statements it executed and
  what the caller gets: the returned value or the raised exception.
\<close>

record http_client =
  post :: "string \<Rightarrow> dict \<Rightarrow> exn + pyval"
  get :: "string \<Rightarrow> dict option \<Rightarrow> exn + pyval"

datatype request = Post string dict | Get string "dict option"

datatype level = INFO | DEBUG | WARNING | ERROR

text \<open>One constructor per log statement of the module; the texts are not modelled.\<close>

datatype log_message =
    CreateStarted
  | CreateSucceeded
  | CreateInvalidAmount
  | CreateUnsupportedCurrency
  | CreateFailed
  | GetStarted
  | GetSucceeded
  | GetUnavailable
  | GetFailed
  | SearchStarted
  | SearchParams
  | SearchFound nat
  | SearchNoItems
  | SearchFailed

record run =
  requests :: "request list"
  logged :: "(level \<times> log_message) list"
  outcome :: "exn + pyval"

subsection \<open>\<^verbatim>\<open>PaymentModule.create\<close>\<close>

text \<open>Truth value of an \<^verbatim>\<open>Optional[str]\<close>: \<^verbatim>\<open>None\<close> and the empty string are falsy.\<close>

definition truthy :: "string option \<Rightarrow> bool" where
  "truthy v = (case v of None \<Rightarrow> False | Some s \<Rightarrow> s \<noteq> [])"

text \<open>\<^verbatim>\<open>if v: data[k] = v\<close>\<close>

definition set_if_truthy :: "dict \<Rightarrow> string \<Rightarrow> string option \<Rightarrow> dict" where
  "set_if_truthy data k v =
     (case v of None \<Rightarrow> data | Some s \<Rightarrow> if truthy v then setitem data k (VStr s) else data)"

text \<open>
  Lines 62 to 86: the amount is made a decimal, rounded, and the payload is built. The
  result is the payload, or the exception \<^verbatim>\<open>quantize\<close> raised.
\<close>

definition create_data ::
  "amount \<Rightarrow> string \<Rightarrow> string option \<Rightarrow> string option \<Rightarrow> string option \<Rightarrow> string option
     \<Rightarrow> exn + dict" where
  "create_data amount currency description order_id success_redirect_url fail_redirect_url =
     (let amount1 = (case amount of
                       AInt n \<Rightarrow> Decimal_of_int_str n
                     | AFloat x \<Rightarrow> Decimal_of_float_str x
                     | ADecimal d \<Rightarrow> d)
      in case quantize amount1 (- 2) of
           Inl ex \<Rightarrow> Inl ex
         | Inr amount2 \<Rightarrow>
             (let data0 = [(''amount'', VFloat (float_of_decimal amount2)),
                           (''currency'', VStr currency)];
                  data1 = set_if_truthy data0 ''description'' description;
                  data2 = set_if_truthy data1 ''orderId'' order_id;
                  data3 = set_if_truthy data2 ''successRedirectUrl'' success_redirect_url;
                  data4 = set_if_truthy data3 ''failRedirectUrl'' fail_redirect_url
              in Inr data4))"

text \<open>
  Lines 93 to 103, the handler of \<^verbatim>\<open>except ApiError as e\<close>: it reads
  \<^verbatim>\<open>e.error_code\<close>, logs one of three messages and re-raises with a bare
  \<^verbatim>\<open>raise\<close>. An exception raised while the attribute is read leaves the handler
  instead.
\<close>

definition create_handler :: "api_error \<Rightarrow> (level \<times> log_message) list \<times> exn" where
  "create_handler e =
     (case getattr_error_code e of
        Inl ex \<Rightarrow> ([], ex)
      | Inr code \<Rightarrow>
          ([(ERROR, if code = VStr ''Payment:PL_1001'' then CreateInvalidAmount
                    else if code = VStr ''Payment:PL_1002'' then CreateUnsupportedCurrency
                    else CreateFailed)],
           ApiErr e))"

definition create ::
  "http_client \<Rightarrow> amount \<Rightarrow> string \<Rightarrow> string option \<Rightarrow> string option \<Rightarrow> string option
     \<Rightarrow> string option \<Rightarrow> run" where
  "create http amount currency description order_id success_redirect_url fail_redirect_url =
     (case create_data amount currency description order_id success_redirect_url
             fail_redirect_url of
        Inl ex \<Rightarrow> \<lparr>requests = [], logged = [(INFO, CreateStarted)], outcome = Inl ex\<rparr>
      | Inr data \<Rightarrow>
          (case post http ''api/h2h/links'' data of
             Inr result \<Rightarrow>
               \<lparr>requests = [Post ''api/h2h/links'' data],
                logged = [(INFO, CreateStarted), (INFO, CreateSucceeded)],
                outcome = Inr result\<rparr>
           | Inl ex \<Rightarrow>
               (case ex of
                  ApiErr e \<Rightarrow>
                    \<lparr>requests = [Post ''api/h2h/links'' data],
                     logged = (INFO, CreateStarted) # fst (create_handler e),
                     outcome = Inl (snd (create_handler e))\<rparr>
                | _ \<Rightarrow>
                    \<lparr>requests = [Post ''api/h2h/links'' data],
                     logged = [(INFO, CreateStarted)],
                     outcome = Inl ex\<rparr>)))"

subsection \<open>\<^verbatim>\<open>PaymentModule.get_link_by_uuid\<close>\<close>

definition get_link_handler :: "api_error \<Rightarrow> (level \<times> log_message) list \<times> exn" where
  "get_link_handler e =
     (case getattr_error_code e of
        Inl ex \<Rightarrow> ([], ex)
      | Inr code \<Rightarrow>
          ([(ERROR, if code = VStr ''Payment:PL_1003'' then GetUnavailable else GetFailed)],
           ApiErr e))"

definition get_link_by_uuid :: "http_client \<Rightarrow> string \<Rightarrow> run" where
  "get_link_by_uuid http uuid =
     (case get http (''api/h2h/links/'' @ uuid) None of
        Inr result \<Rightarrow>
          \<lparr>requests = [Get (''api/h2h/links/'' @ uuid) None],
           logged = [(INFO, GetStarted), (DEBUG, GetSucceeded)],
           outcome = Inr result\<rparr>
      | Inl ex \<Rightarrow>
          (case ex of
             ApiErr e \<Rightarrow>
               \<lparr>requests = [Get (''api/h2h/links/'' @ uuid) None],
                logged = (INFO, GetStarted) # fst (get_link_handler e),
                outcome = Inl (snd (get_link_handler e))\<rparr>
           | _ \<Rightarrow>
               \<lparr>requests = [Get (''api/h2h/links/'' @ uuid) None],
                logged = [(INFO, GetStarted)],
                outcome = Inl ex\<rparr>))"

subsection \<open>\<^verbatim>\<open>PaymentModule.search_links\<close>\<close>

text \<open>Lines 162 to 166 and 168 to 172: the two amount bounds.\<close>

definition set_amount_from :: "dict \<Rightarrow> amount option \<Rightarrow> exn + dict" where
  "set_amount_from params amount_from =
     (case amount_from of
        None \<Rightarrow> Inr params
      | Some a \<Rightarrow>
          (let amount_from1 = (case a of
                                 AInt n \<Rightarrow> Decimal_of_int_str n
                               | AFloat x \<Rightarrow> Decimal_of_float_str x
                               | ADecimal d \<Rightarrow> d)
           in case quantize amount_from1 (- 2) of
                Inl ex \<Rightarrow> Inl ex
              | Inr amount_from2 \<Rightarrow>
                  Inr (setitem params ''amountFrom'' (VFloat (float_of_decimal amount_from2)))))"

definition set_amount_to :: "dict \<Rightarrow> amount option \<Rightarrow> exn + dict" where
  "set_amount_to params amount_to =
     (case amount_to of
        None \<Rightarrow> Inr params
      | Some a \<Rightarrow>
          (let amount_to1 = (case a of
                               AInt n \<Rightarrow> Decimal_of_int_str n
                             | AFloat x \<Rightarrow> Decimal_of_float_str x
                             | ADecimal d \<Rightarrow> d)
           in case quantize amount_to1 (- 2) of
                Inl ex \<Rightarrow> Inl ex
              | Inr amount_to2 \<Rightarrow>
                  Inr (setitem params ''amountTo'' (VFloat (float_of_decimal amount_to2)))))"

text \<open>Lines 175 to 183: the two creation-time bounds.\<close>

definition set_creation_time_from :: "dict \<Rightarrow> time_bound option \<Rightarrow> dict" where
  "set_creation_time_from params creation_time_from =
     (case creation_time_from of
        None \<Rightarrow> params
      | Some b \<Rightarrow>
          setitem params ''creationTimeFrom''
            (VStr (case b of TDatetime dt \<Rightarrow> isoformat dt | TStr s \<Rightarrow> s)))"

definition set_creation_time_to :: "dict \<Rightarrow> time_bound option \<Rightarrow> dict" where
  "set_creation_time_to params creation_time_to =
     (case creation_time_to of
        None \<Rightarrow> params
      | Some b \<Rightarrow>
          setitem params ''creationTimeTo''
            (VStr (case b of TDatetime dt \<Rightarrow> isoformat dt | TStr s \<Rightarrow> s)))"

text \<open>Lines 186 to 210: order id, currencies, statuses, sorting and the two counts.\<close>

definition set_order_id :: "dict \<Rightarrow> string option \<Rightarrow> dict" where
  "set_order_id params order_id =
     (case order_id of None \<Rightarrow> params | Some s \<Rightarrow> setitem params ''orderId'' (VStr s))"

definition set_currencies :: "dict \<Rightarrow> str_or_list option \<Rightarrow> dict" where
  "set_currencies params currencies =
     (case currencies of
        None \<Rightarrow> params
      | Some c \<Rightarrow>
          setitem params ''currencies''
            (VStr (case c of SList xs \<Rightarrow> join '','' xs | SStr s \<Rightarrow> s)))"

definition set_statuses :: "dict \<Rightarrow> str_or_list option \<Rightarrow> dict" where
  "set_statuses params statuses =
     (case statuses of
        None \<Rightarrow> params
      | Some c \<Rightarrow>
          setitem params ''statuses''
            (VStr (case c of SList xs \<Rightarrow> join '','' xs | SStr s \<Rightarrow> s)))"

definition set_sorting :: "dict \<Rightarrow> string option \<Rightarrow> dict" where
  "set_sorting params sorting =
     (case sorting of None \<Rightarrow> params | Some s \<Rightarrow> setitem params ''sorting'' (VStr s))"

definition set_skip_count :: "dict \<Rightarrow> int option \<Rightarrow> dict" where
  "set_skip_count params skip_count =
     (case skip_count of None \<Rightarrow> params | Some n \<Rightarrow> setitem params ''skipCount'' (VInt n))"

definition set_max_result_count :: "dict \<Rightarrow> int option \<Rightarrow> dict" where
  "set_max_result_count params max_result_count =
     (case max_result_count of
        None \<Rightarrow> params
      | Some n \<Rightarrow> setitem params ''maxResultCount'' (VInt n))"

text \<open>Lines 159 to 210: the query parameters, or the exception raised on the way.\<close>

definition search_params ::
  "amount option \<Rightarrow> amount option \<Rightarrow> time_bound option \<Rightarrow> time_bound option \<Rightarrow> string option
     \<Rightarrow> str_or_list option \<Rightarrow> str_or_list option \<Rightarrow> string option \<Rightarrow> int option \<Rightarrow> int option
     \<Rightarrow> exn + dict" where
  "search_params amount_from amount_to creation_time_from creation_time_to order_id currencies
     statuses sorting skip_count max_result_count =
     (case set_amount_from [] amount_from of
        Inl ex \<Rightarrow> Inl ex
      | Inr params1 \<Rightarrow>
          (case set_amount_to params1 amount_to of
             Inl ex \<Rightarrow> Inl ex
           | Inr params2 \<Rightarrow>
               (let params3 = set_creation_time_from params2 creation_time_from;
                    params4 = set_creation_time_to params3 creation_time_to;
                    params5 = set_order_id params4 order_id;
                    params6 = set_currencies params5 currencies;
                    params7 = set_statuses params6 statuses;
                    params8 = set_sorting params7 sorting;
                    params9 = set_skip_count params8 skip_count;
                    params10 = set_max_result_count params9 max_result_count
                in Inr params10)))"

text \<open>
  Lines 218 to 222: the log statement after the response has arrived. The count is
  \<^verbatim>\<open>len(result['items'])\<close>, computed when the message is formatted.
\<close>

definition log_search_result :: "pyval \<Rightarrow> exn + (level \<times> log_message)" where
  "log_search_result result =
     (case py_contains result ''items'' of
        Inl ex \<Rightarrow> Inl ex
      | Inr has_items \<Rightarrow>
          if has_items
          then (case py_getitem result ''items'' of
                  Inl ex \<Rightarrow> Inl ex
                | Inr items \<Rightarrow>
                    (case py_len items of
                       Inl ex \<Rightarrow> Inl ex
                     | Inr n \<Rightarrow> Inr (INFO, SearchFound n)))
          else Inr (WARNING, SearchNoItems))"

definition search_links ::
  "http_client \<Rightarrow> amount option \<Rightarrow> amount option \<Rightarrow> time_bound option \<Rightarrow> time_bound option
     \<Rightarrow> string option \<Rightarrow> str_or_list option \<Rightarrow> str_or_list option \<Rightarrow> string option
     \<Rightarrow> int option \<Rightarrow> int option \<Rightarrow> run" where
  "search_links http amount_from amount_to creation_time_from creation_time_to order_id
     currencies statuses sorting skip_count max_result_count =
     (case search_params amount_from amount_to creation_time_from creation_time_to order_id
             currencies statuses sorting skip_count max_result_count of
        Inl ex \<Rightarrow> \<lparr>requests = [], logged = [(INFO, SearchStarted)], outcome = Inl ex\<rparr>
      | Inr params \<Rightarrow>
          (case get http ''api/h2h/links/'' (Some params) of
             Inr result \<Rightarrow>
               (case log_search_result result of
                  Inr entry \<Rightarrow>
                    \<lparr>requests = [Get ''api/h2h/links/'' (Some params)],
                     logged = [(INFO, SearchStarted), (DEBUG, SearchParams), entry],
                     outcome = Inr result\<rparr>
                | Inl ex \<Rightarrow>
                    \<lparr>requests = [Get ''api/h2h/links/'' (Some params)],
                     logged = [(INFO, SearchStarted), (DEBUG, SearchParams)],
                     outcome = Inl ex\<rparr>)
           | Inl ex \<Rightarrow>
               (case ex of
                  ApiErr e \<Rightarrow>
                    \<lparr>requests = [Get ''api/h2h/links/'' (Some params)],
                     logged = [(INFO, SearchStarted), (DEBUG, SearchParams),
                               (ERROR, SearchFailed)],
                     outcome = Inl (ApiErr e)\<rparr>
                | _ \<Rightarrow>
                    \<lparr>requests = [Get ''api/h2h/links/'' (Some params)],
                     logged = [(INFO, SearchStarted), (DEBUG, SearchParams)],
                     outcome = Inl ex\<rparr>)))"

section \<open>The rounding rule\<close>

text \<open>
  The number a finite decimal stands for, and rounding half up to two fractional digits
  as a function on numbers: the nearest multiple of 1/100, an exact half going away
  from zero.
\<close>

definition finite_value :: "bool \<Rightarrow> nat \<Rightarrow> int \<Rightarrow> rat" where
  "finite_value s c e = (if s then - 1 else 1) * of_nat c * 10 powi e"

definition round_half_up_2 :: "rat \<Rightarrow> rat" where
  "round_half_up_2 v = sgn v * of_int \<lfloor>\<bar>v\<bar> * 100 + 1 / 2\<rfloor> / 100"

fun decimal_value :: "decimal \<Rightarrow> rat option" where
  "decimal_value (Dec s c e) = Some (finite_value s c e)"
| "decimal_value d = None"

text \<open>
  The number an amount argument stands for in the module: an int and a finite decimal
  stand for their value, a float for the value of \<^verbatim>\<open>str(amount)\<close>, which is what
  the module reads of it. Infinities and NaNs stand for no number.
\<close>

definition amount_value :: "amount \<Rightarrow> rat option" where
  "amount_value a =
     (case a of
        AInt n \<Rightarrow> Some (of_int n)
      | AFloat x \<Rightarrow> decimal_value (Decimal_of_float_str x)
      | ADecimal d \<Rightarrow> decimal_value d)"

section \<open>The exceptions\<close>

text \<open>
  C10. For every status code and every message, the text of \<^verbatim>\<open>ApiError(status_code,
  message)\<close> is \<^verbatim>\<open>"API Error {status_code}: {message}"\<close>: both branches of the
  constructor's test on the message's prefix give the same text.
\<close>

theorem ApiError_text:
  "args_text (ApiError sc msg) = ''API Error '' @ str_int sc @ '': '' @ msg"
  by (simp add: ApiError_def ApiError_init_def format_str_def Let_def)

text \<open>
  C9, as the claim states it, fails: a timeout error carries the status 408, which is the
  HTTP status "Request Timeout", so its status field equals that of an API error built
  from a real HTTP 408 response.
\<close>

theorem timeout_status_collides:
  "is_http_status 408 \<and>
   status_code (ApiTimeoutError ''timed out'') = status_code (ApiError 408 ''Request Timeout'')"
  by (simp add: is_http_status_def ApiTimeoutError_def ApiError_def ApiError_init_def Let_def)

text \<open>
  C9, amended. A connection error carries the status 0, which is no HTTP status; a
  timeout error carries 408, which differs from the connection marker; an API error
  with an HTTP status differs in its status field from every connection error, and from
  a timeout error exactly when its status is not 408.
\<close>

theorem error_status_markers:
  assumes "is_http_status sc"
  shows "status_code (ApiConnectionError m) = 0 \<and>
         \<not> is_http_status (status_code (ApiConnectionError m)) \<and>
         status_code (ApiTimeoutError m') = 408 \<and>
         status_code (ApiTimeoutError m') \<noteq> status_code (ApiConnectionError m) \<and>
         status_code (ApiError sc m'') = sc \<and>
         status_code (ApiError sc m'') \<noteq> status_code (ApiConnectionError m) \<and>
         (status_code (ApiError sc m'') = status_code (ApiTimeoutError m') \<longleftrightarrow> sc = 408)"
  using assms
  by (auto simp: is_http_status_def ApiTimeoutError_def ApiConnectionError_def ApiError_def
      ApiError_init_def Let_def)

theorem error_status_markers_witness:
  "is_http_status 404 \<and>
   status_code (ApiConnectionError ''refused'') = 0 \<and>
   status_code (ApiTimeoutError ''timed out'') = 408 \<and>
   status_code (ApiError 404 ''Not Found'') = 404 \<and>
   status_code (ApiError 404 ''Not Found'') \<noteq> status_code (ApiTimeoutError ''timed out'')"
proof -
  have h: "is_http_status 404"
    by (simp add: is_http_status_def)
  from error_status_markers [OF h, of "''refused''" "''timed out''" "''Not Found''"] h
  show ?thesis by simp
qed

section \<open>Dicts and the requests of each operation\<close>

lemma lookup_setitem: "lookup (setitem d k v) k' = (if k' = k then Some v else lookup d k')"
  by (induction d) (auto simp: lookup_def)

lemma lookup_Nil: "lookup [] k = None"
  by (simp add: lookup_def)

lemma keys_setitem: "keys (setitem d k v) = insert k (keys d)"
  by (induction d) (auto simp: keys_def)

lemma lookup_None_iff: "lookup d k = None \<longleftrightarrow> k \<notin> keys d"
  by (simp add: lookup_def keys_def map_of_eq_None_iff)

text \<open>
  Each operation hands the transport one request at most: \<^verbatim>\<open>create\<close> and
  \<^verbatim>\<open>search_links\<close> exactly one once their arguments are normalised, none when the
  normalisation raises.
\<close>

lemma requests_create:
  "requests (create http a c d oid s f) =
     (case create_data a c d oid s f of Inl ex \<Rightarrow> [] | Inr data \<Rightarrow> [Post ''api/h2h/links'' data])"
  by (simp add: create_def split: sum.split exn.split)

lemma requests_search_links:
  "requests (search_links http a_from a_to tf tt oid cur st so sk mx) =
     (case search_params a_from a_to tf tt oid cur st so sk mx of
        Inl ex \<Rightarrow> []
      | Inr params \<Rightarrow> [Get ''api/h2h/links/'' (Some params)])"
  by (simp add: search_links_def split: sum.split exn.split)

lemma requests_get_link_by_uuid:
  "requests (get_link_by_uuid http uuid) = [Get (''api/h2h/links/'' @ uuid) None]"
  by (simp add: get_link_by_uuid_def split: sum.split exn.split)

section \<open>Query parameters of \<^verbatim>\<open>search_links\<close>\<close>

text \<open>
  C5. \<^verbatim>\<open>search_links(currencies=["RUB","USD"], statuses="Opened", skip_count=0,
  max_result_count=50)\<close> issues, whatever the transport does, the single request
  \<^verbatim>\<open>GET api/h2h/links/\<close> with exactly the four query parameters of the scenario; the
  count 0 is among them.
\<close>

theorem search_links_scenario:
  "requests (search_links http None None None None None (Some (SList [''RUB'', ''USD'']))
       (Some (SStr ''Opened'')) None (Some 0) (Some 50)) =
     [Get ''api/h2h/links/''
        (Some [(''currencies'', VStr ''RUB,USD''), (''statuses'', VStr ''Opened''),
               (''skipCount'', VInt 0), (''maxResultCount'', VInt 50)])]"
  by (simp add: requests_search_links search_params_def set_amount_from_def set_amount_to_def
      set_creation_time_from_def set_creation_time_to_def set_order_id_def set_currencies_def
      set_statuses_def set_sorting_def set_skip_count_def set_max_result_count_def)

lemmas set_param_defs =
  set_creation_time_from_def set_creation_time_to_def set_order_id_def set_currencies_def
  set_statuses_def set_sorting_def set_skip_count_def set_max_result_count_def

lemma lookup_set_creation_time_from:
  "lookup (set_creation_time_from p v) k =
     (if k = ''creationTimeFrom''
      then (case v of None \<Rightarrow> lookup p k
            | Some b \<Rightarrow> Some (VStr (case b of TDatetime dt \<Rightarrow> isoformat dt | TStr s \<Rightarrow> s)))
      else lookup p k)"
  by (simp add: set_creation_time_from_def lookup_setitem split: option.split)

lemma lookup_set_creation_time_to:
  "lookup (set_creation_time_to p v) k =
     (if k = ''creationTimeTo''
      then (case v of None \<Rightarrow> lookup p k
            | Some b \<Rightarrow> Some (VStr (case b of TDatetime dt \<Rightarrow> isoformat dt | TStr s \<Rightarrow> s)))
      else lookup p k)"
  by (simp add: set_creation_time_to_def lookup_setitem split: option.split)

lemma lookup_set_order_id:
  "lookup (set_order_id p v) k =
     (if k = ''orderId'' then (case v of None \<Rightarrow> lookup p k | Some s \<Rightarrow> Some (VStr s))
      else lookup p k)"
  by (simp add: set_order_id_def lookup_setitem split: option.split)

lemma lookup_set_currencies:
  "lookup (set_currencies p v) k =
     (if k = ''currencies''
      then (case v of None \<Rightarrow> lookup p k
            | Some c \<Rightarrow> Some (VStr (case c of SList xs \<Rightarrow> join '','' xs | SStr s \<Rightarrow> s)))
      else lookup p k)"
  by (simp add: set_currencies_def lookup_setitem split: option.split)

lemma lookup_set_statuses:
  "lookup (set_statuses p v) k =
     (if k = ''statuses''
      then (case v of None \<Rightarrow> lookup p k
            | Some c \<Rightarrow> Some (VStr (case c of SList xs \<Rightarrow> join '','' xs | SStr s \<Rightarrow> s)))
      else lookup p k)"
  by (simp add: set_statuses_def lookup_setitem split: option.split)

lemma lookup_set_sorting:
  "lookup (set_sorting p v) k =
     (if k = ''sorting'' then (case v of None \<Rightarrow> lookup p k | Some s \<Rightarrow> Some (VStr s))
      else lookup p k)"
  by (simp add: set_sorting_def lookup_setitem split: option.split)

lemma lookup_set_skip_count:
  "lookup (set_skip_count p v) k =
     (if k = ''skipCount'' then (case v of None \<Rightarrow> lookup p k | Some n \<Rightarrow> Some (VInt n))
      else lookup p k)"
  by (simp add: set_skip_count_def lookup_setitem split: option.split)

lemma lookup_set_max_result_count:
  "lookup (set_max_result_count p v) k =
     (if k = ''maxResultCount'' then (case v of None \<Rightarrow> lookup p k | Some n \<Rightarrow> Some (VInt n))
      else lookup p k)"
  by (simp add: set_max_result_count_def lookup_setitem split: option.split)

lemmas lookup_set_param =
  lookup_set_creation_time_from lookup_set_creation_time_to lookup_set_order_id
  lookup_set_currencies lookup_set_statuses lookup_set_sorting lookup_set_skip_count
  lookup_set_max_result_count

lemma set_amount_from_lookup:
  assumes "set_amount_from [] a_from = Inr p"
  shows "(lookup p ''amountFrom'' = None \<longleftrightarrow> a_from = None) \<and>
         (\<forall>k. k \<noteq> ''amountFrom'' \<longrightarrow> lookup p k = None)"
  using assms
  by (auto simp: set_amount_from_def lookup_def Let_def split: option.splits sum.splits)

lemma set_amount_to_lookup:
  assumes "set_amount_to p1 a_to = Inr p"
  shows "(lookup p ''amountTo'' = None \<longleftrightarrow> a_to = None \<and> lookup p1 ''amountTo'' = None) \<and>
         (\<forall>k. k \<noteq> ''amountTo'' \<longrightarrow> lookup p k = lookup p1 k)"
  using assms
  by (auto simp: set_amount_to_def lookup_setitem Let_def split: option.splits sum.splits)

lemma search_params_rest:
  assumes "search_params a_from a_to tf tt oid cur st so sk mx = Inr params"
  shows "\<exists>p1 p2. set_amount_from [] a_from = Inr p1 \<and> set_amount_to p1 a_to = Inr p2 \<and>
           params = set_max_result_count (set_skip_count (set_sorting (set_statuses
             (set_currencies (set_order_id (set_creation_time_to
                (set_creation_time_from p2 tf) tt) oid) cur) st) so) sk) mx"
  using assms by (auto simp: search_params_def Let_def split: sum.splits)

lemma search_params_lookup:
  assumes "search_params a_from a_to tf tt oid cur st so sk mx = Inr params"
  shows "(lookup params ''amountFrom'' = None \<longleftrightarrow> a_from = None)"
    and "(lookup params ''amountTo'' = None \<longleftrightarrow> a_to = None)"
    and "lookup params ''creationTimeFrom'' =
           map_option (\<lambda>b. VStr (case b of TDatetime dt \<Rightarrow> isoformat dt | TStr s \<Rightarrow> s)) tf"
    and "lookup params ''creationTimeTo'' =
           map_option (\<lambda>b. VStr (case b of TDatetime dt \<Rightarrow> isoformat dt | TStr s \<Rightarrow> s)) tt"
    and "lookup params ''orderId'' = map_option VStr oid"
    and "lookup params ''currencies'' =
           map_option (\<lambda>c. VStr (case c of SList xs \<Rightarrow> join '','' xs | SStr s \<Rightarrow> s)) cur"
    and "lookup params ''statuses'' =
           map_option (\<lambda>c. VStr (case c of SList xs \<Rightarrow> join '','' xs | SStr s \<Rightarrow> s)) st"
    and "lookup params ''sorting'' = map_option VStr so"
    and "lookup params ''skipCount'' = map_option VInt sk"
    and "lookup params ''maxResultCount'' = map_option VInt mx"
proof -
  from search_params_rest [OF assms] obtain p1 p2 where
    p1: "set_amount_from [] a_from = Inr p1" and p2: "set_amount_to p1 a_to = Inr p2" and
    params: "params = set_max_result_count (set_skip_count (set_sorting (set_statuses
             (set_currencies (set_order_id (set_creation_time_to
                (set_creation_time_from p2 tf) tt) oid) cur) st) so) sk) mx"
    by blast
  note a = set_amount_from_lookup [OF p1] set_amount_to_lookup [OF p2]
  show "(lookup params ''amountFrom'' = None \<longleftrightarrow> a_from = None)"
    using a by (simp add: params lookup_set_param)
  show "(lookup params ''amountTo'' = None \<longleftrightarrow> a_to = None)"
    using a by (simp add: params lookup_set_param)
  show "lookup params ''creationTimeFrom'' =
           map_option (\<lambda>b. VStr (case b of TDatetime dt \<Rightarrow> isoformat dt | TStr s \<Rightarrow> s)) tf"
    using a by (simp add: params lookup_set_param split: option.split)
  show "lookup params ''creationTimeTo'' =
           map_option (\<lambda>b. VStr (case b of TDatetime dt \<Rightarrow> isoformat dt | TStr s \<Rightarrow> s)) tt"
    using a by (simp add: params lookup_set_param split: option.split)
  show "lookup params ''orderId'' = map_option VStr oid"
    using a by (simp add: params lookup_set_param split: option.split)
  show "lookup params ''currencies'' =
           map_option (\<lambda>c. VStr (case c of SList xs \<Rightarrow> join '','' xs | SStr s \<Rightarrow> s)) cur"
    using a by (simp add: params lookup_set_param split: option.split)
  show "lookup params ''statuses'' =
           map_option (\<lambda>c. VStr (case c of SList xs \<Rightarrow> join '','' xs | SStr s \<Rightarrow> s)) st"
    using a by (simp add: params lookup_set_param split: option.split)
  show "lookup params ''sorting'' = map_option VStr so"
    using a by (simp add: params lookup_set_param split: option.split)
  show "lookup params ''skipCount'' = map_option VInt sk"
    using a by (simp add: params lookup_set_param split: option.split)
  show "lookup params ''maxResultCount'' = map_option VInt mx"
    using a by (simp add: params lookup_set_param split: option.split)
qed

section \<open>The payload of \<^verbatim>\<open>create\<close>\<close>

lemma lookup_Cons: "lookup ((k, v) # d) k' = (if k' = k then Some v else lookup d k')"
  by (simp add: lookup_def)

lemma lookup_set_if_truthy:
  "lookup (set_if_truthy d k v) k' =
     (if k' = k \<and> truthy v then map_option VStr v else lookup d k')"
  by (simp add: set_if_truthy_def lookup_setitem truthy_def split: option.split)

lemma create_data_Inr:
  assumes "create_data a c d oid s f = Inr data"
  shows "\<exists>q. quantize (case a of AInt n \<Rightarrow> Decimal_of_int_str n
                        | AFloat x \<Rightarrow> Decimal_of_float_str x | ADecimal d \<Rightarrow> d) (- 2) = Inr q \<and>
          data = set_if_truthy (set_if_truthy (set_if_truthy (set_if_truthy
                   [(''amount'', VFloat (float_of_decimal q)), (''currency'', VStr c)]
                   ''description'' d) ''orderId'' oid) ''successRedirectUrl'' s)
                   ''failRedirectUrl'' f"
  using assms by (auto simp: create_data_def Let_def split: sum.splits)

lemma create_data_lookup:
  assumes "create_data a c d oid s f = Inr data"
  shows "lookup data ''currency'' = Some (VStr c)"
    and "lookup data ''description'' = (if truthy d then map_option VStr d else None)"
    and "lookup data ''orderId'' = (if truthy oid then map_option VStr oid else None)"
    and "lookup data ''successRedirectUrl'' = (if truthy s then map_option VStr s else None)"
    and "lookup data ''failRedirectUrl'' = (if truthy f then map_option VStr f else None)"
    and "lookup data k \<noteq> Some VNone"
proof -
  from create_data_Inr [OF assms] obtain q where
    data: "data = set_if_truthy (set_if_truthy (set_if_truthy (set_if_truthy
                   [(''amount'', VFloat (float_of_decimal q)), (''currency'', VStr c)]
                   ''description'' d) ''orderId'' oid) ''successRedirectUrl'' s)
                   ''failRedirectUrl'' f"
    by blast
  show "lookup data ''currency'' = Some (VStr c)"
    by (simp add: data lookup_set_if_truthy lookup_Cons)
  show "lookup data ''description'' = (if truthy d then map_option VStr d else None)"
    by (simp add: data lookup_set_if_truthy lookup_Cons lookup_Nil)
  show "lookup data ''orderId'' = (if truthy oid then map_option VStr oid else None)"
    by (simp add: data lookup_set_if_truthy lookup_Cons lookup_Nil)
  show "lookup data ''successRedirectUrl'' = (if truthy s then map_option VStr s else None)"
    by (simp add: data lookup_set_if_truthy lookup_Cons lookup_Nil)
  show "lookup data ''failRedirectUrl'' = (if truthy f then map_option VStr f else None)"
    by (simp add: data lookup_set_if_truthy lookup_Cons lookup_Nil)
  show "lookup data k \<noteq> Some VNone"
    by (auto simp: data lookup_set_if_truthy lookup_Cons lookup_Nil truthy_def
        split: option.splits)
qed

lemma set_amount_from_no_null:
  assumes "set_amount_from [] a_from = Inr p"
  shows "lookup p k \<noteq> Some VNone"
  using assms
  by (auto simp: set_amount_from_def lookup_Cons lookup_Nil Let_def
      split: option.splits sum.splits if_splits)

lemma set_amount_to_no_null:
  assumes "set_amount_to p1 a_to = Inr p" and "lookup p1 k \<noteq> Some VNone"
  shows "lookup p k \<noteq> Some VNone"
  using assms
  by (auto simp: set_amount_to_def lookup_setitem Let_def split: option.splits sum.splits if_splits)

lemma no_null_set_param:
  assumes "lookup p k \<noteq> Some VNone"
  shows "lookup (set_creation_time_from p tb) k \<noteq> Some VNone"
    and "lookup (set_creation_time_to p tb) k \<noteq> Some VNone"
    and "lookup (set_order_id p so) k \<noteq> Some VNone"
    and "lookup (set_currencies p sl) k \<noteq> Some VNone"
    and "lookup (set_statuses p sl) k \<noteq> Some VNone"
    and "lookup (set_sorting p so) k \<noteq> Some VNone"
    and "lookup (set_skip_count p n) k \<noteq> Some VNone"
    and "lookup (set_max_result_count p n) k \<noteq> Some VNone"
  using assms by (auto simp: lookup_set_param split: option.split)

lemma search_params_no_null:
  assumes "search_params a_from a_to tf tt oid cur st so sk mx = Inr params"
  shows "lookup params k \<noteq> Some VNone"
proof -
  from search_params_rest [OF assms] obtain p1 p2 where
    p1: "set_amount_from [] a_from = Inr p1" and p2: "set_amount_to p1 a_to = Inr p2" and
    params: "params = set_max_result_count (set_skip_count (set_sorting (set_statuses
             (set_currencies (set_order_id (set_creation_time_to
                (set_creation_time_from p2 tf) tt) oid) cur) st) so) sk) mx"
    by blast
  have "lookup p2 k \<noteq> Some VNone"
    using set_amount_to_no_null [OF p2 set_amount_from_no_null [OF p1]] .
  then show ?thesis
    unfolding params by (intro no_null_set_param)
qed

lemmas quantize_eval =
  quantize.simps context_prec_def context_Emax_def context_Etiny_def adjusted_def
  rescale_half_up_def ndigits.simps Let_def

lemma create_data_ten:
  "create_data (AInt 10) ''RUB'' (Some ''book'') (Some []) None None =
     Inr [(''amount'', VFloat (float_of_decimal (Dec False 1000 (- 2)))),
          (''currency'', VStr ''RUB''), (''description'', VStr ''book'')]"
  by (simp add: create_data_def Decimal_of_int_str_def quantize_eval set_if_truthy_def truthy_def)


section \<open>Optional fields, lists, time bounds and amounts\<close>

lemma join_Cons: "join sep (x # xs) = x @ concat (map (\<lambda>y. sep @ y) xs)"
  by (induction xs arbitrary: x) simp_all

text \<open>
  C2, as the claim states it, fails for \<^verbatim>\<open>search_links\<close>: its parameters are tested
  with \<^verbatim>\<open>is not None\<close>, not for truth, so the falsy \<^verbatim>\<open>order_id=""\<close> is sent
  under the key \<^verbatim>\<open>orderId\<close>.
\<close>

theorem search_links_keeps_empty_order_id:
  "\<not> truthy (Some []) \<and>
   (\<forall>http. requests (search_links http None None None None (Some []) None None None None None) =
      [Get ''api/h2h/links/'' (Some [(''orderId'', VStr [])])])"
  by (simp add: truthy_def requests_search_links search_params_def set_amount_from_def
      set_amount_to_def set_param_defs)

text \<open>
  C2, amended. In the payload of \<^verbatim>\<open>create\<close> an optional field appears, under its
  documented key and with its own value, exactly when it is truthy (neither
  \<^verbatim>\<open>None\<close> nor the empty string). In the query of \<^verbatim>\<open>search_links\<close> a parameter
  appears under its documented key exactly when it is not \<^verbatim>\<open>None\<close>, the empty
  string and the number 0 included. No key of either carries the value \<^verbatim>\<open>None\<close>.
\<close>

theorem optional_keys:
  assumes "create_data a c d oid s f = Inr data"
    and "search_params a_from a_to tf tt soid cur st so sk mx = Inr params"
  shows "requests (create http a c d oid s f) = [Post ''api/h2h/links'' data] \<and>
         lookup data ''description'' = (if truthy d then map_option VStr d else None) \<and>
         lookup data ''orderId'' = (if truthy oid then map_option VStr oid else None) \<and>
         lookup data ''successRedirectUrl'' = (if truthy s then map_option VStr s else None) \<and>
         lookup data ''failRedirectUrl'' = (if truthy f then map_option VStr f else None) \<and>
         (\<forall>k. lookup data k \<noteq> Some VNone) \<and>
         requests (search_links http' a_from a_to tf tt soid cur st so sk mx) =
           [Get ''api/h2h/links/'' (Some params)] \<and>
         (lookup params ''amountFrom'' = None \<longleftrightarrow> a_from = None) \<and>
         (lookup params ''amountTo'' = None \<longleftrightarrow> a_to = None) \<and>
         (lookup params ''creationTimeFrom'' = None \<longleftrightarrow> tf = None) \<and>
         (lookup params ''creationTimeTo'' = None \<longleftrightarrow> tt = None) \<and>
         lookup params ''orderId'' = map_option VStr soid \<and>
         (lookup params ''currencies'' = None \<longleftrightarrow> cur = None) \<and>
         (lookup params ''statuses'' = None \<longleftrightarrow> st = None) \<and>
         lookup params ''sorting'' = map_option VStr so \<and>
         lookup params ''skipCount'' = map_option VInt sk \<and>
         lookup params ''maxResultCount'' = map_option VInt mx \<and>
         (\<forall>k. lookup params k \<noteq> Some VNone)"
proof -
  note c = create_data_lookup [OF assms(1)]
  note p = search_params_lookup [OF assms(2)]
  have r1: "requests (create http a c d oid s f) = [Post ''api/h2h/links'' data]"
    by (simp add: requests_create assms(1))
  have r2: "requests (search_links http' a_from a_to tf tt soid cur st so sk mx) =
           [Get ''api/h2h/links/'' (Some params)]"
    by (simp add: requests_search_links assms(2))
  have n1: "\<forall>k. lookup data k \<noteq> Some VNone"
    using c(6) by blast
  have n2: "\<forall>k. lookup params k \<noteq> Some VNone"
    using search_params_no_null [OF assms(2)] by blast
  have t: "(lookup params ''creationTimeFrom'' = None \<longleftrightarrow> tf = None)"
    "(lookup params ''creationTimeTo'' = None \<longleftrightarrow> tt = None)"
    "(lookup params ''currencies'' = None \<longleftrightarrow> cur = None)"
    "(lookup params ''statuses'' = None \<longleftrightarrow> st = None)"
    by (simp_all add: p)
  show ?thesis
    using r1 r2 n1 n2 t c(2-5) p(1,2,5,8,9,10) by blast
qed

text \<open>
  C4. In the query that \<^verbatim>\<open>search_links\<close> sends, a list given for
  \<^verbatim>\<open>currencies\<close> or \<^verbatim>\<open>statuses\<close> is one string under one key, its elements
  separated by commas (the empty string for the empty list), and a single string is
  passed through unchanged.
\<close>

theorem search_links_joins_lists:
  assumes "search_params a_from a_to tf tt oid cur st so sk mx = Inr params"
  shows "requests (search_links http a_from a_to tf tt oid cur st so sk mx) =
           [Get ''api/h2h/links/'' (Some params)] \<and>
         (cur = Some (SList (x # xs)) \<longrightarrow>
            lookup params ''currencies'' =
              Some (VStr (x @ concat (map (\<lambda>y. '','' @ y) xs)))) \<and>
         (cur = Some (SList []) \<longrightarrow> lookup params ''currencies'' = Some (VStr [])) \<and>
         (cur = Some (SStr s) \<longrightarrow> lookup params ''currencies'' = Some (VStr s)) \<and>
         (st = Some (SList (x' # xs')) \<longrightarrow>
            lookup params ''statuses'' =
              Some (VStr (x' @ concat (map (\<lambda>y. '','' @ y) xs')))) \<and>
         (st = Some (SList []) \<longrightarrow> lookup params ''statuses'' = Some (VStr [])) \<and>
         (st = Some (SStr s') \<longrightarrow> lookup params ''statuses'' = Some (VStr s'))"
proof -
  note p = search_params_lookup [OF assms]
  have r: "requests (search_links http a_from a_to tf tt oid cur st so sk mx) =
           [Get ''api/h2h/links/'' (Some params)]"
    by (simp add: requests_search_links assms)
  show ?thesis
    using r by (simp add: p(6,7) join_Cons)
qed

text \<open>
  C6. In the query that \<^verbatim>\<open>search_links\<close> sends, a creation-time bound given as a
  \<^verbatim>\<open>datetime\<close> is its \<^verbatim>\<open>isoformat()\<close> string and a bound given as a string is
  that string.
\<close>

theorem search_links_time_bounds:
  assumes "search_params a_from a_to tf tt oid cur st so sk mx = Inr params"
  shows "requests (search_links http a_from a_to tf tt oid cur st so sk mx) =
           [Get ''api/h2h/links/'' (Some params)] \<and>
         (tf = Some (TDatetime dt) \<longrightarrow>
            lookup params ''creationTimeFrom'' = Some (VStr (isoformat dt))) \<and>
         (tf = Some (TStr s) \<longrightarrow> lookup params ''creationTimeFrom'' = Some (VStr s)) \<and>
         (tt = Some (TDatetime dt') \<longrightarrow>
            lookup params ''creationTimeTo'' = Some (VStr (isoformat dt'))) \<and>
         (tt = Some (TStr s') \<longrightarrow> lookup params ''creationTimeTo'' = Some (VStr s'))"
proof -
  note p = search_params_lookup [OF assms]
  have r: "requests (search_links http a_from a_to tf tt oid cur st so sk mx) =
           [Get ''api/h2h/links/'' (Some params)]"
    by (simp add: requests_search_links assms)
  show ?thesis
    using r by (simp add: p(3,4))
qed

text \<open>
  C7. The three amount sites agree on every amount: what \<^verbatim>\<open>search_links\<close> stores
  under \<^verbatim>\<open>amountFrom\<close> and under \<^verbatim>\<open>amountTo\<close> is what \<^verbatim>\<open>create\<close> stores
  under \<^verbatim>\<open>amount\<close>, and each raises exactly when the others do, the same exception.
\<close>

theorem amount_sites_agree:
  "map_sum id (\<lambda>p. lookup p ''amountFrom'') (set_amount_from p0 (Some a)) =
     map_sum id (\<lambda>data. lookup data ''amount'') (create_data a c d oid s f) \<and>
   map_sum id (\<lambda>p. lookup p ''amountTo'') (set_amount_to p1 (Some a)) =
     map_sum id (\<lambda>data. lookup data ''amount'') (create_data a c d oid s f) \<and>
   map_sum id (\<lambda>p. (lookup p ''amountFrom'', lookup p ''amountTo''))
       (search_params (Some a) (Some a) tf tt soid cur st so sk mx) =
     map_sum id (\<lambda>data. (lookup data ''amount'', lookup data ''amount''))
       (create_data a c d oid s f)"
  by (simp add: set_amount_from_def set_amount_to_def create_data_def search_params_def Let_def
      lookup_setitem lookup_set_param lookup_set_if_truthy lookup_Cons lookup_Nil
      split: sum.split)

lemmas search_params_eval =
  search_params_def set_amount_from_def set_amount_to_def set_param_defs

lemma search_params_order_id_eval:
  "search_params None None None None (Some []) None None None (Some 0) None =
     Inr [(''orderId'', VStr []), (''skipCount'', VInt 0)]"
  by (simp add: search_params_eval)

theorem optional_keys_witness:
  "create_data (AInt 10) ''RUB'' (Some ''book'') (Some []) None None =
     Inr [(''amount'', VFloat (float_of_decimal (Dec False 1000 (- 2)))),
          (''currency'', VStr ''RUB''), (''description'', VStr ''book'')] \<and>
   search_params None None None None (Some []) None None None (Some 0) None =
     Inr [(''orderId'', VStr []), (''skipCount'', VInt 0)] \<and>
   lookup [(''amount'', VFloat (float_of_decimal (Dec False 1000 (- 2)))),
           (''currency'', VStr ''RUB''), (''description'', VStr ''book'')] ''description'' =
     Some (VStr ''book'') \<and>
   lookup [(''amount'', VFloat (float_of_decimal (Dec False 1000 (- 2)))),
           (''currency'', VStr ''RUB''), (''description'', VStr ''book'')] ''orderId'' = None \<and>
   lookup [(''orderId'', VStr []), (''skipCount'', VInt 0)] ''orderId'' = Some (VStr []) \<and>
   lookup [(''orderId'', VStr []), (''skipCount'', VInt 0)] ''skipCount'' = Some (VInt 0) \<and>
   lookup [(''orderId'', VStr []), (''skipCount'', VInt 0)] ''sorting'' = None"
  using optional_keys [OF create_data_ten search_params_order_id_eval]
    create_data_ten search_params_order_id_eval
  by (simp add: truthy_def)

lemma search_params_lists_eval:
  "search_params None None None None None (Some (SList [''RUB'', ''EUR'']))
       (Some (SStr ''Opened'')) None None None =
     Inr [(''currencies'', VStr ''RUB,EUR''), (''statuses'', VStr ''Opened'')]"
  by (simp add: search_params_eval)

theorem search_links_joins_lists_witness:
  "search_params None None None None None (Some (SList [''RUB'', ''EUR'']))
       (Some (SStr ''Opened'')) None None None =
     Inr [(''currencies'', VStr ''RUB,EUR''), (''statuses'', VStr ''Opened'')] \<and>
   lookup [(''currencies'', VStr ''RUB,EUR''), (''statuses'', VStr ''Opened'')] ''currencies'' =
     Some (VStr ''RUB,EUR'') \<and>
   lookup [(''currencies'', VStr ''RUB,EUR''), (''statuses'', VStr ''Opened'')] ''statuses'' =
     Some (VStr ''Opened'')"
  using search_links_joins_lists [OF search_params_lists_eval,
      where x = "''RUB''" and xs = "[''EUR'']" and s' = "''Opened''"]
    search_params_lists_eval
  by simp

lemmas str_eval = zero_pad_def str_nat.simps digit_char_def

lemma isoformat_eval:
  "isoformat \<lparr>year = 2024, month = 3, day = 15, hour = 10, minute = 30, second = 0,
              microsecond = 0, utcoffset = None\<rparr> = ''2024-03-15T10:30:00''"
  by (simp add: isoformat_def format_offset_def) (simp add: str_eval)

lemma search_params_times_eval:
  "search_params None None
       (Some (TDatetime \<lparr>year = 2024, month = 3, day = 15, hour = 10, minute = 30, second = 0,
                          microsecond = 0, utcoffset = None\<rparr>))
       (Some (TStr ''2024-02-01'')) None None None None None None =
     Inr [(''creationTimeFrom'', VStr ''2024-03-15T10:30:00''),
          (''creationTimeTo'', VStr ''2024-02-01'')]"
  by (simp add: search_params_eval isoformat_eval)

theorem search_links_time_bounds_witness:
  "search_params None None
       (Some (TDatetime \<lparr>year = 2024, month = 3, day = 15, hour = 10, minute = 30, second = 0,
                          microsecond = 0, utcoffset = None\<rparr>))
       (Some (TStr ''2024-02-01'')) None None None None None None =
     Inr [(''creationTimeFrom'', VStr ''2024-03-15T10:30:00''),
          (''creationTimeTo'', VStr ''2024-02-01'')] \<and>
   lookup [(''creationTimeFrom'', VStr ''2024-03-15T10:30:00''),
           (''creationTimeTo'', VStr ''2024-02-01'')] ''creationTimeFrom'' =
     Some (VStr ''2024-03-15T10:30:00'') \<and>
   lookup [(''creationTimeFrom'', VStr ''2024-03-15T10:30:00''),
           (''creationTimeTo'', VStr ''2024-02-01'')] ''creationTimeTo'' =
     Some (VStr ''2024-02-01'')"
  using search_links_time_bounds [OF search_params_times_eval,
      where dt = "\<lparr>year = 2024, month = 3, day = 15, hour = 10, minute = 30, second = 0,
                    microsecond = 0, utcoffset = None\<rparr>" and s' = "''2024-02-01''"]
    search_params_times_eval
  by (simp add: isoformat_eval)

section \<open>Errors of the transport and the response of a search\<close>

lemma create_outcome_ApiErr:
  assumes "create_data a c d oid s f = Inr data"
    and "post http ''api/h2h/links'' data = Inl (ApiErr e)"
  shows "outcome (create http a c d oid s f) =
           (case error_code e of None \<Rightarrow> Inl AttributeError | Some code \<Rightarrow> Inl (ApiErr e))"
  using assms
  by (simp add: create_def create_handler_def getattr_error_code_def split: option.split)

lemma get_link_outcome_ApiErr:
  assumes "get http (''api/h2h/links/'' @ uuid) None = Inl (ApiErr e)"
  shows "outcome (get_link_by_uuid http uuid) =
           (case error_code e of None \<Rightarrow> Inl AttributeError | Some code \<Rightarrow> Inl (ApiErr e))"
  using assms
  by (simp add: get_link_by_uuid_def get_link_handler_def getattr_error_code_def
      split: option.split)

lemma search_links_outcome_ApiErr:
  assumes "search_params a_from a_to tf tt oid cur st so sk mx = Inr params"
    and "get http ''api/h2h/links/'' (Some params) = Inl (ApiErr e)"
  shows "outcome (search_links http a_from a_to tf tt oid cur st so sk mx) = Inl (ApiErr e)"
  using assms by (simp add: search_links_def)

lemma error_code_ApiError_init: "error_code (ApiError_init cls sc msg rd) = None"
  by (simp add: ApiError_init_def Let_def)

text \<open>
  C3. The handlers of \<^verbatim>\<open>create\<close> and \<^verbatim>\<open>get_link_by_uuid\<close> read
  \<^verbatim>\<open>e.error_code\<close>, an attribute that \<^verbatim>\<open>ApiError\<close> and its subclasses never set.
  For an error as the constructors build it the handler raises
  \<^verbatim>\<open>AttributeError\<close>, and the caller gets that instead of the API error.
\<close>

theorem create_replaces_api_error:
  "outcome (create \<lparr>post = \<lambda>path data. Inl (ApiErr (ApiError 400 ''Bad Request'')),
                    get = \<lambda>path params. Inl (ApiErr (ApiTimeoutError ''timed out''))\<rparr>
              (AInt 10) ''RUB'' (Some ''book'') (Some []) None None) = Inl AttributeError \<and>
   outcome (get_link_by_uuid \<lparr>post = \<lambda>path data. Inl (ApiErr (ApiError 400 ''Bad Request'')),
                    get = \<lambda>path params. Inl (ApiErr (ApiTimeoutError ''timed out''))\<rparr>
              ''0b7c'') = Inl AttributeError"
  by (simp add: create_outcome_ApiErr [OF create_data_ten] get_link_outcome_ApiErr
      ApiError_def ApiTimeoutError_def error_code_ApiError_init)

lemma search_links_outcome_response:
  assumes "search_params a_from a_to tf tt oid cur st so sk mx = Inr params"
    and "get http ''api/h2h/links/'' (Some params) = Inr result"
  shows "outcome (search_links http a_from a_to tf tt oid cur st so sk mx) =
           (case log_search_result result of Inl ex \<Rightarrow> Inl ex | Inr entry \<Rightarrow> Inr result)"
  using assms by (simp add: search_links_def split: sum.split)

lemma in_keys_map_of: "k \<in> fst ` set d \<longleftrightarrow> map_of d k \<noteq> None"
  by (simp add: map_of_eq_None_iff)

lemma log_search_result_dict:
  "log_search_result (VDict d) =
     (case map_of d ''items'' of
        None \<Rightarrow> Inr (WARNING, SearchNoItems)
      | Some items \<Rightarrow> (case py_len items of Inl ex \<Rightarrow> Inl ex | Inr n \<Rightarrow> Inr (INFO, SearchFound n)))"
  by (simp add: log_search_result_def in_keys_map_of split: option.split sum.split)

lemma search_params_empty: "search_params None None None None None None None None None None = Inr []"
  by (simp add: search_params_eval)

text \<open>
  C8. When the response is \<^verbatim>\<open>{"items": null}\<close>, formatting the log message calls
  \<^verbatim>\<open>len(None)\<close>: \<^verbatim>\<open>search_links\<close> raises \<^verbatim>\<open>TypeError\<close> and the response is
  not returned.
\<close>

theorem search_links_null_items_raises:
  "outcome (search_links \<lparr>post = \<lambda>path data. Inr VNone,
                          get = \<lambda>path params. Inr (VDict [(''items'', VNone)])\<rparr>
              None None None None None None None None None None) = Inl TypeError"
  by (simp add: search_links_outcome_response [OF search_params_empty] log_search_result_dict)

section \<open>The amount\<close>

text \<open>
  First the library functions are evaluated at the scenario's numbers, then
  \<^verbatim>\<open>quantize\<close> is related to the rounding rule on numbers.
\<close>

lemmas float_eval =
  float_of_decimal.simps float_of_scaled_def float_of_ratio_def binary_exponent_def
  ratio_ge_pow_def round_half_even_def bit_length.simps Let_def

lemma float_10_005: "float_of_decimal (Dec False 10005 (- 3)) = FFinite False 5632314283980227 (- 49)"
  by (simp add: float_eval)

lemma float_10_01: "float_of_decimal (Dec False 1001 (- 2)) = FFinite False 5635129033747333 (- 49)"
  by (simp add: float_eval)

lemma quantize_10_005: "quantize (Dec False 10005 (- 3)) (- 2) = Inr (Dec False 1001 (- 2))"
  by (simp add: quantize_eval)

lemmas repr_eval =
  repr_candidate_def decimal_exponent_def ndigits.simps float_of_scaled_def float_of_ratio_def
  binary_exponent_def ratio_ge_pow_def round_half_even_def bit_length.simps Let_def

lemma cand1: "repr_candidate (FFinite False 5632314283980227 (- 49)) False 5632314283980227 562949953421312 1 = None"
  by (simp add: repr_eval)

lemma cand2: "repr_candidate (FFinite False 5632314283980227 (- 49)) False 5632314283980227 562949953421312 2 = None"
  by (simp add: repr_eval)

lemma cand3: "repr_candidate (FFinite False 5632314283980227 (- 49)) False 5632314283980227 562949953421312 3 = None"
  by (simp add: repr_eval)

lemma cand4: "repr_candidate (FFinite False 5632314283980227 (- 49)) False 5632314283980227 562949953421312 4 = None"
  by (simp add: repr_eval)

lemma cand5: "repr_candidate (FFinite False 5632314283980227 (- 49)) False 5632314283980227 562949953421312 5 = Some (10005, - 3)"
  by (simp add: repr_eval)

lemma shortest_10_005:
  "shortest_digits (FFinite False 5632314283980227 (- 49)) False 5632314283980227 562949953421312 = (10005, - 3)"
  unfolding shortest_digits_def first_some.simps cand1 cand2 cand3 cand4 cand5 option.case
    prod.case
  by (simp add: strip_zeros.simps)

lemma Decimal_of_float_str_10_005:
  "Decimal_of_float_str (FFinite False 5632314283980227 (- 49)) = Dec False 10005 (- 3)"
  by (simp add: Decimal_of_float_str.simps shortest_10_005 ndigits.simps)

lemma ndigits_pos: "1 \<le> ndigits n"
  by (subst ndigits.simps) simp

lemma ndigits_le_iff: "0 < k \<Longrightarrow> ndigits n \<le> k \<longleftrightarrow> n < 10 ^ k"
proof (induction k arbitrary: n)
  case 0
  then show ?case by simp
next
  case (Suc k)
  show ?case
  proof (cases "n < 10")
    case True
    have "10 * 1 \<le> 10 * (10::nat) ^ k"
      by (rule mult_le_mono2) simp
    with True have "n < 10 * 10 ^ k" by linarith
    then have "n < 10 ^ Suc k" by simp
    moreover from True have "ndigits n = 1"
      by (subst ndigits.simps) simp
    ultimately show ?thesis by simp
  next
    case False
    then have nd: "ndigits n = Suc (ndigits (n div 10))"
      by (subst ndigits.simps) simp
    show ?thesis
    proof (cases "k = 0")
      case True
      with False nd ndigits_pos [of "n div 10"] show ?thesis by simp
    next
      case k: False
      then have "ndigits (n div 10) \<le> k \<longleftrightarrow> n div 10 < 10 ^ k"
        using Suc.IH [of "n div 10"] by simp
      also have "\<dots> \<longleftrightarrow> n < 10 ^ k * 10"
        by (simp add: div_less_iff_less_mult)
      finally show ?thesis
        by (simp add: nd mult.commute)
    qed
  qed
qed

lemma ndigits_lower: "n \<noteq> 0 \<Longrightarrow> 10 ^ (ndigits n - 1) \<le> n"
proof (cases "ndigits n - 1 = 0")
  case True
  assume "n \<noteq> 0"
  with True show ?thesis by simp
next
  case False
  then have "\<not> ndigits n \<le> ndigits n - 1" by simp
  with False show ?thesis
    using ndigits_le_iff [of "ndigits n - 1" n] by simp
qed

lemma half_up_div:
  fixes c P :: nat
  assumes "0 < P"
  shows "(if 5 \<le> (c div P) mod 10 then c div (10 * P) + 1 else c div (10 * P)) =
           (2 * c + 10 * P) div (2 * (10 * P))"
proof -
  define Q where "Q = 10 * P"
  define k where "k = c div Q"
  define r where "r = c mod Q"
  have Q: "0 < Q" using assms by (simp add: Q_def)
  have c: "c = Q * k + r" by (simp add: k_def r_def)
  have r: "r < Q" using Q by (simp add: r_def)
  have "c = P * (10 * k) + r"
    by (simp add: c Q_def)
  then have "c div P = (P * (10 * k) + r) div P"
    by simp
  also have "\<dots> = 10 * k + r div P"
    using assms by simp
  finally have "c div P = 10 * k + r div P" .
  moreover have "r div P < 10"
    using r assms by (simp add: Q_def div_less_iff_less_mult mult.commute)
  ultimately have cut: "(c div P) mod 10 = r div P"
    by simp
  have five: "5 \<le> r div P \<longleftrightarrow> Q \<le> 2 * r"
    using assms by (auto simp: Q_def less_eq_div_iff_mult_less_eq)
  have split: "2 * c + Q = (2 * Q) * k + (2 * r + Q)"
    by (simp add: c algebra_simps)
  have "(2 * c + Q) div (2 * Q) = ((2 * Q) * k + (2 * r + Q)) div (2 * Q)"
    by (simp only: split)
  also have "\<dots> = k + (2 * r + Q) div (2 * Q)"
    using Q by (subst div_mult_self4) simp_all
  finally have "(2 * c + Q) div (2 * Q) = k + (2 * r + Q) div (2 * Q)" .
  moreover have "(2 * r + Q) div (2 * Q) = (if Q \<le> 2 * r then 1 else 0)"
    using r Q by (auto simp: div_eq_0_iff intro!: div_nat_eqI)
  ultimately show ?thesis
    by (simp add: cut five Q_def [symmetric] k_def [symmetric])
qed

lemma rescale_zero: "rescale_half_up 0 e xp = 0"
  by (simp add: rescale_half_up_def Let_def)

lemma rescale_large:
  assumes "c \<noteq> 0" and "26 < e + int (ndigits c)"
  shows "10 ^ 28 \<le> rescale_half_up c e (- 2)"
proof (cases "- 2 \<le> e")
  case True
  have "(10::nat) ^ 28 \<le> 10 ^ (ndigits c - 1 + nat (e + 2))"
    using assms(2) True by (intro power_increasing) auto
  also have "\<dots> = 10 ^ (ndigits c - 1) * 10 ^ nat (e + 2)"
    by (simp add: power_add)
  also have "\<dots> \<le> c * 10 ^ nat (e + 2)"
    using ndigits_lower [OF assms(1)] by (intro mult_le_mono1)
  finally show ?thesis
    using True by (simp add: rescale_half_up_def)
next
  case False
  define shift where "shift = nat (- 2 - e)"
  have shift: "shift + 28 \<le> ndigits c - 1"
    using assms(2) False by (simp add: shift_def)
  have "(10::nat) ^ 28 * 10 ^ shift \<le> 10 ^ (ndigits c - 1)"
    unfolding power_add [symmetric] using shift by (intro power_increasing) auto
  also have "\<dots> \<le> c"
    using ndigits_lower [OF assms(1)] .
  finally have "10 ^ 28 \<le> c div 10 ^ shift"
    by (simp add: less_eq_div_iff_mult_less_eq)
  then show ?thesis
    using False by (simp add: rescale_half_up_def Let_def shift_def)
qed

lemma quantize_Dec:
  "quantize (Dec s c e) (- 2) =
     (if rescale_half_up c e (- 2) < 10 ^ 28 then Inr (Dec s (rescale_half_up c e (- 2)) (- 2))
      else Inl InvalidOperation)"
proof (cases "c = 0")
  case True
  then show ?thesis
    by (simp add: quantize.simps rescale_zero context_Etiny_def context_Emax_def
        context_prec_def)
next
  case c: False
  show ?thesis
  proof (cases "26 < e + int (ndigits c)")
    case True
    from rescale_large [OF c True] have "\<not> rescale_half_up c e (- 2) < 10 ^ 28"
      by simp
    with True c show ?thesis
      by (simp add: quantize.simps context_Etiny_def context_Emax_def context_prec_def
          adjusted_def)
  next
    case False
    have fit: "ndigits (rescale_half_up c e (- 2)) \<le> 28 \<longleftrightarrow> rescale_half_up c e (- 2) < 10 ^ 28"
      by (rule ndigits_le_iff) simp
    show ?thesis
    proof (cases "rescale_half_up c e (- 2) < 10 ^ 28")
      case True
      with fit have "ndigits (rescale_half_up c e (- 2)) \<le> 28" by simp
      with True False c show ?thesis
        by (simp add: quantize.simps context_Etiny_def context_Emax_def context_prec_def
            adjusted_def Let_def)
    next
      case big: False
      with fit have "28 < ndigits (rescale_half_up c e (- 2))" by simp
      with big False c show ?thesis
        by (auto simp: quantize.simps context_Etiny_def context_Emax_def context_prec_def
            adjusted_def Let_def)
    qed
  qed
qed

lemma rescale_floor:
  "int (rescale_half_up c e (- 2)) = \<lfloor>(of_nat c :: rat) * 10 powi (e + 2) + 1 / 2\<rfloor>"
proof (cases "- 2 \<le> e")
  case True
  have "(of_nat c :: rat) * 10 powi (e + 2) = of_nat (c * 10 ^ nat (e + 2))"
    using True by (simp add: power_int_def)
  then have "\<lfloor>(of_nat c :: rat) * 10 powi (e + 2) + 1 / 2\<rfloor> = int (c * 10 ^ nat (e + 2))"
    by (simp only: floor_eq_iff) simp
  with True show ?thesis
    by (simp add: rescale_half_up_def)
next
  case False
  define shift where "shift = nat (- 2 - e)"
  define P :: nat where "P = 10 ^ (shift - Suc 0)"
  have shift: "0 < shift" "e + 2 = - int shift"
    using False by (simp_all add: shift_def)
  have P: "0 < P" "10 ^ shift = 10 * P"
    using shift(1) by (simp_all add: P_def power_Suc [symmetric] del: power_Suc)
  have "rescale_half_up c e (- 2) =
          (if 5 \<le> (c div P) mod 10 then c div (10 * P) + 1 else c div (10 * P))"
    using False P(2) by (simp add: rescale_half_up_def Let_def shift_def [symmetric] P_def [symmetric])
  also have "\<dots> = (2 * c + 10 * P) div (2 * (10 * P))"
    by (rule half_up_div) (rule P(1))
  finally have r: "rescale_half_up c e (- 2) = (2 * c + 10 * P) div (2 * (10 * P))" .
  have "(of_nat (10 ^ shift) :: rat) = of_nat (10 * P)"
    by (simp only: P(2))
  then have tenth: "(10::rat) ^ shift = of_nat (10 * P)"
    by simp
  have "(10::rat) powi (e + 2) = inverse (10 ^ shift)"
    by (simp add: shift(2) power_int_minus)
  then have "(10::rat) powi (e + 2) = 1 / of_nat (10 * P)"
    by (simp only: tenth inverse_eq_divide)
  then have "(of_nat c :: rat) * 10 powi (e + 2) + 1 / 2 = of_nat c / of_nat (10 * P) + 1 / 2"
    by simp
  also have "\<dots> = of_nat (2 * c + 10 * P) / of_nat (2 * (10 * P))"
    using P(1) by (simp add: field_simps)
  finally have "\<lfloor>(of_nat c :: rat) * 10 powi (e + 2) + 1 / 2\<rfloor> =
                  \<lfloor>(of_nat (2 * c + 10 * P) :: rat) / of_nat (2 * (10 * P))\<rfloor>"
    by simp
  also have "\<dots> = int ((2 * c + 10 * P) div (2 * (10 * P)))"
    by (rule floor_divide_of_nat_eq)
  finally show ?thesis
    by (simp add: r)
qed

lemma abs_finite_value: "\<bar>finite_value s c e\<bar> = of_nat c * 10 powi e"
  by (simp add: finite_value_def abs_mult)

lemma powi_shift2: "(10::rat) powi e * 100 = 10 powi (e + 2)"
  by (simp add: power_int_add)

lemma powi_minus2: "(10::rat) powi (- 2) = 1 / 100"
  by (simp add: power_int_def power2_eq_square)

lemma round_half_up_2_finite:
  "round_half_up_2 (finite_value s c e) = finite_value s (rescale_half_up c e (- 2)) (- 2)"
proof -
  have "\<bar>finite_value s c e\<bar> * 100 = of_nat c * 10 powi (e + 2)"
    by (simp add: abs_finite_value powi_shift2 mult.assoc)
  then have fl: "\<lfloor>\<bar>finite_value s c e\<bar> * 100 + 1 / 2\<rfloor> = int (rescale_half_up c e (- 2))"
    by (simp add: rescale_floor)
  show ?thesis
  proof (cases "c = 0")
    case True
    then show ?thesis
      by (simp add: round_half_up_2_def finite_value_def rescale_zero)
  next
    case False
    then have "sgn (finite_value s c e) = (if s then - 1 else 1)"
      by (simp add: finite_value_def sgn_mult)
    then show ?thesis
      unfolding round_half_up_2_def fl
      by (simp add: finite_value_def [of s "rescale_half_up c e (- 2)"] powi_minus2)
  qed
qed

lemma amount_value_Some:
  assumes "amount_value a = Some v"
  shows "\<exists>sg c e. (case a of AInt n \<Rightarrow> Decimal_of_int_str n
                     | AFloat x \<Rightarrow> Decimal_of_float_str x | ADecimal d \<Rightarrow> d) = Dec sg c e \<and>
           finite_value sg c e = v"
proof (cases a)
  case (AInt n)
  have "finite_value (n < 0) (nat \<bar>n\<bar>) 0 = of_int n"
    by (simp add: finite_value_def)
  with AInt assms show ?thesis
    by (simp add: amount_value_def Decimal_of_int_str_def)
next
  case (AFloat x)
  with assms show ?thesis
    by (cases "Decimal_of_float_str x") (simp_all add: amount_value_def)
next
  case (ADecimal d)
  with assms show ?thesis
    by (cases d) (simp_all add: amount_value_def)
qed

lemma rescale_fits:
  assumes "\<bar>round_half_up_2 (finite_value sg c e)\<bar> < 10 ^ 26"
  shows "rescale_half_up c e (- 2) < 10 ^ 28"
proof -
  have "\<bar>round_half_up_2 (finite_value sg c e)\<bar> = of_nat (rescale_half_up c e (- 2)) / 100"
    by (simp add: round_half_up_2_finite abs_finite_value powi_minus2)
  with assms have "(of_nat (rescale_half_up c e (- 2)) :: rat) < of_nat (10 ^ 28)"
    by simp
  then show ?thesis
    by (simp only: of_nat_less_iff)
qed

lemma create_data_in_range:
  assumes "amount_value a = Some v" and "\<bar>round_half_up_2 v\<bar> < 10 ^ 26"
  shows "\<exists>sg c. create_data a cur d oid s f =
             Inr (set_if_truthy (set_if_truthy (set_if_truthy (set_if_truthy
                   [(''amount'', VFloat (float_of_decimal (Dec sg c (- 2)))),
                    (''currency'', VStr cur)]
                   ''description'' d) ''orderId'' oid) ''successRedirectUrl'' s)
                   ''failRedirectUrl'' f) \<and>
           finite_value sg c (- 2) = round_half_up_2 v"
proof -
  from amount_value_Some [OF assms(1)] obtain sg c e where
    dec: "(case a of AInt n \<Rightarrow> Decimal_of_int_str n
           | AFloat x \<Rightarrow> Decimal_of_float_str x | ADecimal d \<Rightarrow> d) = Dec sg c e" and
    v: "finite_value sg c e = v"
    by blast
  from assms(2) v have "rescale_half_up c e (- 2) < 10 ^ 28"
    using rescale_fits [of sg c e] by simp
  then have q: "quantize (Dec sg c e) (- 2) = Inr (Dec sg (rescale_half_up c e (- 2)) (- 2))"
    by (simp add: quantize_Dec)
  have "finite_value sg (rescale_half_up c e (- 2)) (- 2) = round_half_up_2 v"
    using round_half_up_2_finite [of sg c e] v by simp
  moreover have "create_data a cur d oid s f =
             Inr (set_if_truthy (set_if_truthy (set_if_truthy (set_if_truthy
                   [(''amount'', VFloat (float_of_decimal (Dec sg (rescale_half_up c e (- 2)) (- 2)))),
                    (''currency'', VStr cur)]
                   ''description'' d) ''orderId'' oid) ''successRedirectUrl'' s)
                   ''failRedirectUrl'' f)"
    unfolding create_data_def Let_def dec q by simp
  ultimately show ?thesis by blast
qed

lemma rescale_overflows:
  assumes "10 ^ 26 \<le> \<bar>round_half_up_2 (finite_value sg c e)\<bar>"
  shows "\<not> rescale_half_up c e (- 2) < 10 ^ 28"
proof -
  have "\<bar>round_half_up_2 (finite_value sg c e)\<bar> = of_nat (rescale_half_up c e (- 2)) / 100"
    by (simp add: round_half_up_2_finite abs_finite_value powi_minus2)
  with assms have "(of_nat (10 ^ 28) :: rat) \<le> of_nat (rescale_half_up c e (- 2))"
    by simp
  then show ?thesis
    by (simp only: of_nat_le_iff not_less)
qed

text \<open>
  Beyond the range nothing is sent: \<^verbatim>\<open>quantize\<close> raises, whatever the other arguments.
\<close>

lemma create_data_out_of_range:
  assumes "amount_value a = Some v" and "10 ^ 26 \<le> \<bar>round_half_up_2 v\<bar>"
  shows "create_data a cur d oid s f = Inl InvalidOperation"
proof -
  from amount_value_Some [OF assms(1)] obtain sg c e where
    dec: "(case a of AInt n \<Rightarrow> Decimal_of_int_str n
           | AFloat x \<Rightarrow> Decimal_of_float_str x | ADecimal d \<Rightarrow> d) = Dec sg c e" and
    v: "finite_value sg c e = v"
    by blast
  from assms(2) v have "\<not> rescale_half_up c e (- 2) < 10 ^ 28"
    using rescale_overflows [of sg c e] by simp
  then have q: "quantize (Dec sg c e) (- 2) = Inl InvalidOperation"
    by (simp only: quantize_Dec if_False)
  show ?thesis
    unfolding create_data_def Let_def dec q by simp
qed

lemma create_data_scenario:
  "create_data (AFloat (float_of_decimal (Dec False 10005 (- 3)))) ''RUB'' None None None None =
     Inr [(''amount'', VFloat (float_of_decimal (Dec False 1001 (- 2)))),
          (''currency'', VStr ''RUB'')]"
  unfolding float_10_005 create_data_def Let_def amount.case Decimal_of_float_str_10_005
    quantize_10_005
  by (simp add: set_if_truthy_def)

lemma create_data_too_large:
  "create_data (AInt 100000000000000000000000000) ''RUB'' None None None None =
     Inl InvalidOperation"
  by (simp add: create_data_def Decimal_of_int_str_def quantize_eval)

lemma create_data_nan:
  "create_data (ADecimal (DNaN False)) ''RUB'' None None None None =
     Inr [(''amount'', VFloat FNaN), (''currency'', VStr ''RUB'')]"
  by (simp add: create_data_def quantize.simps float_of_decimal.simps set_if_truthy_def)

text \<open>
  C1, as the claim states it, fails. The int \<open>10^26\<close> is an amount whose rounding needs 29
  digits: \<^verbatim>\<open>quantize\<close> raises \<^verbatim>\<open>InvalidOperation\<close> in the default context and
  \<^verbatim>\<open>create\<close> sends nothing. And the decimal \<^verbatim>\<open>Decimal('NaN')\<close> passes
  \<^verbatim>\<open>quantize\<close> unchanged and is sent as the float NaN, which is the rounding of no
  number.
\<close>

theorem create_raises_on_large_amount:
  "amount_value (AInt 100000000000000000000000000) = Some 100000000000000000000000000 \<and>
   (\<forall>http. requests (create http (AInt 100000000000000000000000000) ''RUB'' None None None None)
             = [] \<and>
           outcome (create http (AInt 100000000000000000000000000) ''RUB'' None None None None)
             = Inl InvalidOperation) \<and>
   (\<forall>http. requests (create http (ADecimal (DNaN False)) ''RUB'' None None None None) =
            [Post ''api/h2h/links'' [(''amount'', VFloat FNaN), (''currency'', VStr ''RUB'')]])"
proof -
  have large: "\<forall>http.
      requests (create http (AInt 100000000000000000000000000) ''RUB'' None None None None) = [] \<and>
      outcome (create http (AInt 100000000000000000000000000) ''RUB'' None None None None) =
        Inl InvalidOperation"
    by (simp add: create_def create_data_too_large)
  have nan: "\<forall>http. requests (create http (ADecimal (DNaN False)) ''RUB'' None None None None) =
      [Post ''api/h2h/links'' [(''amount'', VFloat FNaN), (''currency'', VStr ''RUB'')]]"
    by (simp add: requests_create create_data_nan)
  have "amount_value (AInt 100000000000000000000000000) = Some 100000000000000000000000000"
    by (simp add: amount_value_def)
  with large nan show ?thesis by blast
qed

text \<open>
  C1, amended. Let the amount be an int, a float or a finite decimal, read as the number
  \<open>v\<close> it stands for in the module (a float as the number \<^verbatim>\<open>str\<close> shows), and let
  the rounding of \<open>v\<close> be smaller than \<open>10^26\<close> in magnitude. Then \<^verbatim>\<open>create\<close> sends
  one POST whose payload holds under \<^verbatim>\<open>amount\<close> a float, not a string: the float
  conversion of a decimal with exponent \<open>-2\<close> whose value is \<open>v\<close> rounded half up to two
  fractional digits. And \<^verbatim>\<open>create(amount=10.005, currency="RUB")\<close> sends exactly
  \<^verbatim>\<open>{"amount": 10.01, "currency": "RUB"}\<close>; the float literals \<^verbatim>\<open>10.005\<close> and
  \<^verbatim>\<open>10.01\<close> are the doubles nearest to these decimals.
\<close>

theorem create_amount_half_up:
  assumes "amount_value a = Some v" and "\<bar>round_half_up_2 v\<bar> < 10 ^ 26"
  shows "(\<exists>sg c data.
            requests (create http a cur d oid s f) = [Post ''api/h2h/links'' data] \<and>
            lookup data ''amount'' = Some (VFloat (float_of_decimal (Dec sg c (- 2)))) \<and>
            finite_value sg c (- 2) = round_half_up_2 v) \<and>
         requests (create http (AFloat (float_of_decimal (Dec False 10005 (- 3)))) ''RUB''
                     None None None None) =
           [Post ''api/h2h/links''
              [(''amount'', VFloat (float_of_decimal (Dec False 1001 (- 2)))),
               (''currency'', VStr ''RUB'')]]"
proof -
  from create_data_in_range [OF assms] obtain sg c where
    data: "create_data a cur d oid s f =
             Inr (set_if_truthy (set_if_truthy (set_if_truthy (set_if_truthy
                   [(''amount'', VFloat (float_of_decimal (Dec sg c (- 2)))),
                    (''currency'', VStr cur)]
                   ''description'' d) ''orderId'' oid) ''successRedirectUrl'' s)
                   ''failRedirectUrl'' f)" and
    v: "finite_value sg c (- 2) = round_half_up_2 v"
    by blast
  let ?data = "set_if_truthy (set_if_truthy (set_if_truthy (set_if_truthy
                   [(''amount'', VFloat (float_of_decimal (Dec sg c (- 2)))),
                    (''currency'', VStr cur)]
                   ''description'' d) ''orderId'' oid) ''successRedirectUrl'' s)
                   ''failRedirectUrl'' f"
  have "requests (create http a cur d oid s f) = [Post ''api/h2h/links'' ?data]"
    by (simp add: requests_create data)
  moreover have "lookup ?data ''amount'' = Some (VFloat (float_of_decimal (Dec sg c (- 2))))"
    by (simp add: lookup_set_if_truthy lookup_Cons)
  ultimately have first: "\<exists>sg c data.
            requests (create http a cur d oid s f) = [Post ''api/h2h/links'' data] \<and>
            lookup data ''amount'' = Some (VFloat (float_of_decimal (Dec sg c (- 2)))) \<and>
            finite_value sg c (- 2) = round_half_up_2 v"
    using v by blast
  have "requests (create http (AFloat (float_of_decimal (Dec False 10005 (- 3)))) ''RUB''
                     None None None None) =
           [Post ''api/h2h/links''
              [(''amount'', VFloat (float_of_decimal (Dec False 1001 (- 2)))),
               (''currency'', VStr ''RUB'')]]"
    by (simp only: requests_create create_data_scenario sum.case)
  with first show ?thesis by blast
qed

lemma round_half_up_2_scenario: "round_half_up_2 (2001 / 200) = 1001 / 100"
  by (simp add: round_half_up_2_def)

lemma amount_value_scenario:
  "amount_value (AFloat (float_of_decimal (Dec False 10005 (- 3)))) = Some (2001 / 200)"
  by (simp add: amount_value_def float_10_005 Decimal_of_float_str_10_005 finite_value_def
      power_int_def power3_eq_cube)

theorem create_amount_half_up_witness:
  "amount_value (AFloat (float_of_decimal (Dec False 10005 (- 3)))) = Some (2001 / 200) \<and>
   \<bar>round_half_up_2 (2001 / 200)\<bar> < 10 ^ 26 \<and>
   round_half_up_2 (2001 / 200) = 1001 / 100 \<and>
   float_of_decimal (Dec False 10005 (- 3)) = FFinite False 5632314283980227 (- 49) \<and>
   float_of_decimal (Dec False 1001 (- 2)) = FFinite False 5635129033747333 (- 49) \<and>
   (\<exists>sg c data.
      requests (create \<lparr>post = \<lambda>path data. Inr VNone, get = \<lambda>path params. Inr VNone\<rparr>
                  (AFloat (float_of_decimal (Dec False 10005 (- 3)))) ''RUB''
                  None None None None) = [Post ''api/h2h/links'' data] \<and>
      lookup data ''amount'' = Some (VFloat (float_of_decimal (Dec sg c (- 2)))) \<and>
      finite_value sg c (- 2) = round_half_up_2 (2001 / 200))"
proof -
  have small: "\<bar>round_half_up_2 (2001 / 200)\<bar> < 10 ^ 26"
    by (simp add: round_half_up_2_scenario)
  from create_amount_half_up [OF amount_value_scenario small,
      of "\<lparr>post = \<lambda>path data. Inr VNone, get = \<lambda>path params. Inr VNone\<rparr>" "''RUB''"
         None None None None]
  show ?thesis
    using amount_value_scenario small round_half_up_2_scenario float_10_005 float_10_01
    by blast
qed

lemma quantize_in_range:
  assumes "amount_value a = Some v" and "\<bar>round_half_up_2 v\<bar> < 10 ^ 26"
  shows "\<exists>q. quantize (case a of AInt n \<Rightarrow> Decimal_of_int_str n
                        | AFloat x \<Rightarrow> Decimal_of_float_str x | ADecimal d \<Rightarrow> d) (- 2) = Inr q"
proof -
  from amount_value_Some [OF assms(1)] obtain sg c e where
    dec: "(case a of AInt n \<Rightarrow> Decimal_of_int_str n
           | AFloat x \<Rightarrow> Decimal_of_float_str x | ADecimal d \<Rightarrow> d) = Dec sg c e" and
    v: "finite_value sg c e = v"
    by blast
  from assms(2) v have "rescale_half_up c e (- 2) < 10 ^ 28"
    using rescale_fits [of sg c e] by simp
  then show ?thesis
    unfolding dec by (simp only: quantize_Dec if_True) blast
qed

text \<open>
  \<^verbatim>\<open>search_links\<close> builds its query whenever each amount bound is absent or in range;
  without amount bounds it always does.
\<close>

lemma search_params_succeeds:
  assumes "a_from = None \<or> (\<exists>a v. a_from = Some a \<and> amount_value a = Some v \<and>
             \<bar>round_half_up_2 v\<bar> < 10 ^ 26)"
    and "a_to = None \<or> (\<exists>a v. a_to = Some a \<and> amount_value a = Some v \<and>
             \<bar>round_half_up_2 v\<bar> < 10 ^ 26)"
  shows "\<exists>params. search_params a_from a_to tf tt oid cur st so sk mx = Inr params"
proof -
  have "\<exists>p1. set_amount_from [] a_from = Inr p1"
    using assms(1) quantize_in_range
    by (fastforce simp: set_amount_from_def Let_def split: option.split)
  then obtain p1 where p1: "set_amount_from [] a_from = Inr p1" ..
  have "\<exists>p2. set_amount_to p1 a_to = Inr p2"
    using assms(2) quantize_in_range
    by (fastforce simp: set_amount_to_def Let_def split: option.split)
  then obtain p2 where p2: "set_amount_to p1 a_to = Inr p2" ..
  show ?thesis
    by (simp add: search_params_def p1 p2 Let_def)
qed

end
